theory Spec2Isabelle
  imports Main
begin

section \<open>Strings\<close>

text \<open>
  The engine of \<^verbatim>\<open>commands/pull\<close> works on JavaScript strings: file paths, the text
  of a conflicted manifest, command arguments. They are modelled as \<^typ>\<open>string\<close>, a list of
  8-bit characters, so the model covers texts whose code units are all below 256. The
  patterns of the source only name ASCII characters.
\<close>

definition startsWith :: "string \<Rightarrow> string \<Rightarrow> bool" where
  "startsWith s p = (take (length p) s = p)"

definition endsWith :: "string \<Rightarrow> string \<Rightarrow> bool" where
  "endsWith s p = (length p \<le> length s \<and> drop (length s - length p) s = p)"

text \<open>\<^verbatim>\<open>s.includes(p)\<close>: \<open>p\<close> occurs somewhere in \<open>s\<close>.\<close>

fun includesStr :: "string \<Rightarrow> string \<Rightarrow> bool" where
  "includesStr [] p = (p = [])"
| "includesStr (c # cs) p = (startsWith (c # cs) p \<or> includesStr cs p)"

text \<open>
  The text before and the text after the leftmost occurrence of \<open>p\<close> in a string, when there
  is one. The lazy quantifier \<^verbatim>\<open>[\s\S]*?\<close> followed by a literal stops there.
\<close>

fun splitOn :: "string \<Rightarrow> string \<Rightarrow> (string \<times> string) option" where
  "splitOn p [] = (if p = [] then Some ([], []) else None)"
| "splitOn p (c # cs) =
     (if startsWith (c # cs) p then Some ([], drop (length p) (c # cs))
      else map_option (\<lambda>(a, b). (c # a, b)) (splitOn p cs))"

text \<open>The line feed, the double quote, and the line terminators and white space of a
  JavaScript regular expression that fit in 8 bits.\<close>

definition LF :: char where
  "LF = CHR 0x0A"

definition DQ :: char where
  "DQ = CHR 0x22"

definition isLineTerminator :: "char \<Rightarrow> bool" where
  "isLineTerminator c = (c = CHR 0x0A \<or> c = CHR 0x0D)"

definition isSpace :: "char \<Rightarrow> bool" where
  "isSpace c = (c = CHR 0x09 \<or> c = CHR 0x0A \<or> c = CHR 0x0B \<or> c = CHR 0x0C \<or> c = CHR 0x0D
     \<or> c = CHR 0x20 \<or> c = CHR 0xA0)"

text \<open>\<^verbatim>\<open>s.trim()\<close> and \<^verbatim>\<open>s.split('\n')\<close>.\<close>

definition trim :: "string \<Rightarrow> string" where
  "trim s = rev (dropWhile isSpace (rev (dropWhile isSpace s)))"

fun splitLines :: "string \<Rightarrow> string list" where
  "splitLines [] = [[]]"
| "splitLines (c # cs) =
     (if c = LF then [] # splitLines cs
      else (case splitLines cs of l # ls \<Rightarrow> (c # l) # ls | [] \<Rightarrow> [[c]]))"

text \<open>The decimal numeral of a natural number, as a template literal prints a length
  or a time stamp.\<close>

definition digitChar :: "nat \<Rightarrow> char" where
  "digitChar d = ''0123456789'' ! d"

fun showNat :: "nat \<Rightarrow> string" where
  "showNat n = (if n < 10 then [digitChar n] else showNat (n div 10) @ [digitChar (n mod 10)])"

declare showNat.simps [simp del]

section \<open>Conflict classifier\<close>

text \<open>
  \<^verbatim>\<open>AUTO_RESOLVABLE_PATTERNS\<close> (lines 41-54): each regular expression is modelled by the
  predicate that its \<^verbatim>\<open>test\<close> computes. Without the \<^verbatim>\<open>m\<close> flag, \<^verbatim>\<open>^\<close> and \<^verbatim>\<open>$\<close> match at
  the two ends of the input only, so the three lock patterns test equality.
\<close>

definition packageLock :: "string \<Rightarrow> bool" where
  "packageLock filename = (filename = ''package-lock.json'')"

definition yarnLock :: "string \<Rightarrow> bool" where
  "yarnLock filename = (filename = ''yarn.lock'')"

definition pnpmLock :: "string \<Rightarrow> bool" where
  "pnpmLock filename = (filename = ''pnpm-lock.yaml'')"

definition dist :: "string \<Rightarrow> bool" where
  "dist filename = startsWith filename ''dist/''"

definition coverage :: "string \<Rightarrow> bool" where
  "coverage filename = startsWith filename ''coverage/''"

definition nodeModules :: "string \<Rightarrow> bool" where
  "nodeModules filename = startsWith filename ''node_modules/''"

definition buildOutput :: "string \<Rightarrow> bool" where
  "buildOutput filename = (endsWith filename ''.js.map'' \<or> endsWith filename ''.d.ts'')"

text \<open>
  \<^verbatim>\<open>canAutoResolve\<close> (lines 59-83) returns the object \<^verbatim>\<open>{ canResolve, strategy }\<close>, here the
  pair of the two fields; the strategy is a string in the source and stays one.
\<close>

definition canAutoResolve :: "string \<Rightarrow> bool \<times> string" where
  "canAutoResolve filename =
     (if packageLock filename then (True, ''regenerate-lock'')
      else if yarnLock filename then (True, ''regenerate-lock'')
      else if pnpmLock filename then (True, ''regenerate-lock'')
      else if dist filename then (True, ''take-theirs-regenerate'')
      else if coverage filename then (True, ''take-theirs'')
      else if nodeModules filename then (True, ''take-theirs'')
      else if buildOutput filename then (True, ''take-theirs-regenerate'')
      else (False, ''manual''))"

lemmas pattern_defs =
  packageLock_def yarnLock_def pnpmLock_def dist_def coverage_def nodeModules_def
  buildOutput_def

section \<open>Version conflicts of a package manifest\<close>

text \<open>
  \<^verbatim>\<open>tryResolvePackageJsonConflict\<close> (lines 88-153) reads the conflicted text with four regular
  expressions. Each is modelled by the function that the backtracking matcher computes on
  it: the leftmost position at which the pattern matches, lazy quantifiers taking the
  shortest text that lets the rest match.
\<close>

definition conflictStart :: string where
  "conflictStart = ''<<<<<<< ''"

definition separator :: string where
  "separator = ''======='' @ [LF]"

definition conflictEnd :: string where
  "conflictEnd = ''>>>>>>> ''"

definition versionKey :: string where
  "versionKey = [DQ] @ ''version'' @ [DQ] @ '':''"

text \<open>\<^verbatim>\<open>.*?\n\<close> at the start of a text: what follows the first line feed, provided no
  other line terminator stands before it (\<^verbatim>\<open>.\<close> matches none).\<close>

definition restOfLine :: "string \<Rightarrow> string option" where
  "restOfLine r =
     (case dropWhile (\<lambda>c. \<not> isLineTerminator c) r of
        [] \<Rightarrow> None
      | c # cs \<Rightarrow> if c = LF then Some cs else None)"

text \<open>\<^verbatim>\<open>/<<<<<<< .*?\n([\s\S]*?)=======\n/\<close>: group 1 of a match that starts at the very
  beginning of the text, and group 1 of the leftmost match.\<close>

definition oursAt :: "string \<Rightarrow> string option" where
  "oursAt s =
     (if startsWith s conflictStart then
        (case restOfLine (drop (length conflictStart) s) of
           None \<Rightarrow> None
         | Some r \<Rightarrow> map_option fst (splitOn separator r))
      else None)"

fun oursMatch :: "string \<Rightarrow> string option" where
  "oursMatch [] = None"
| "oursMatch (c # cs) =
     (case oursAt (c # cs) of Some g \<Rightarrow> Some g | None \<Rightarrow> oursMatch cs)"

text \<open>\<^verbatim>\<open>/=======\n([\s\S]*?)>>>>>>> /\<close>: a later separator has no end marker behind it
  that the first one lacks, so the leftmost match starts at the first separator.\<close>

definition theirsMatch :: "string \<Rightarrow> string option" where
  "theirsMatch s =
     (case splitOn separator s of
        None \<Rightarrow> None
      | Some (before, after) \<Rightarrow> map_option fst (splitOn conflictEnd after))"

text \<open>\<^verbatim>\<open>/"version":\s*"([^"]+)"/\<close>: at the beginning of a text, the matched text, group 1
  and the text behind the match; for the leftmost match, the text before it as well.\<close>

definition versionAt :: "string \<Rightarrow> (string \<times> string \<times> string) option" where
  "versionAt s =
     (if startsWith s versionKey then
        (let ws = takeWhile isSpace (drop (length versionKey) s);
             r = dropWhile isSpace (drop (length versionKey) s)
         in case r of
              [] \<Rightarrow> None
            | q # r' \<Rightarrow>
                if q \<noteq> DQ then None
                else (let v = takeWhile (\<lambda>c. c \<noteq> DQ) r'
                      in if v = [] then None
                         else (case dropWhile (\<lambda>c. c \<noteq> DQ) r' of
                                 [] \<Rightarrow> None
                               | q' # post \<Rightarrow> Some (versionKey @ ws @ [DQ] @ v @ [DQ], v, post))))
      else None)"

fun versionMatch :: "string \<Rightarrow> (string \<times> string \<times> string \<times> string) option" where
  "versionMatch [] = None"
| "versionMatch (c # cs) =
     (case versionAt (c # cs) of
        Some (m, v, post) \<Rightarrow> Some ([], m, v, post)
      | None \<Rightarrow> map_option (\<lambda>(pre, m, v, post). (c # pre, m, v, post)) (versionMatch cs))"

text \<open>\<^verbatim>\<open>v.replace(/-.*$/, '')\<close>: the text from the first hyphen that has no line terminator
  behind it is cut off.\<close>

fun stripPrerelease :: "string \<Rightarrow> string" where
  "stripPrerelease [] = []"
| "stripPrerelease (c # cs) =
     (if c = CHR ''-'' \<and> \<not> list_ex isLineTerminator cs then []
      else c # stripPrerelease cs)"

text \<open>
  \<^verbatim>\<open>/<<<<<<< .*?\n[\s\S]*?=======\n([\s\S]*?)>>>>>>> .*?\n/g\<close> replaced by \<^verbatim>\<open>'$1'\<close>.
  \<open>closeAt\<close> is the end marker with the rest of its line at the beginning of a text,
  \<open>findClose\<close> the lazy group 1 in front of the first end marker whose line is complete,
  \<open>conflictBlockAt\<close> a whole match at the beginning of a text: group 1 and the text behind
  the match.
\<close>

definition closeAt :: "string \<Rightarrow> string option" where
  "closeAt s =
     (if startsWith s conflictEnd then restOfLine (drop (length conflictEnd) s) else None)"

fun findClose :: "string \<Rightarrow> (string \<times> string) option" where
  "findClose [] = None"
| "findClose (c # cs) =
     (case closeAt (c # cs) of
        Some rest \<Rightarrow> Some ([], rest)
      | None \<Rightarrow> map_option (\<lambda>(g, rest). (c # g, rest)) (findClose cs))"

definition conflictBlockAt :: "string \<Rightarrow> (string \<times> string) option" where
  "conflictBlockAt s =
     (if startsWith s conflictStart then
        (case restOfLine (drop (length conflictStart) s) of
           None \<Rightarrow> None
         | Some r \<Rightarrow>
             (case splitOn separator r of
                None \<Rightarrow> None
              | Some (ours, after) \<Rightarrow> findClose after))
      else None)"

text \<open>Every match of the pattern is at least as long as its start marker, which is what lets
  the global replacement go on behind it.\<close>

lemma restOfLine_length: "restOfLine r = Some t \<Longrightarrow> length t < length r"
proof -
  assume "restOfLine r = Some t"
  then obtain c where "dropWhile (\<lambda>c. \<not> isLineTerminator c) r = c # t"
    by (auto simp: restOfLine_def split: list.splits if_splits)
  then have "length (dropWhile (\<lambda>c. \<not> isLineTerminator c) r) = Suc (length t)"
    by simp
  moreover have "length (dropWhile (\<lambda>c. \<not> isLineTerminator c) r) \<le> length r"
    by (rule length_dropWhile_le)
  ultimately show ?thesis by simp
qed

lemma splitOn_length: "splitOn p s = Some (a, b) \<Longrightarrow> length b \<le> length s"
  by (induction s arbitrary: a) (auto split: if_splits)

lemma closeAt_length: "closeAt s = Some t \<Longrightarrow> length t < length s"
  by (auto simp: closeAt_def split: if_splits dest!: restOfLine_length)

lemma findClose_length: "findClose s = Some (g, t) \<Longrightarrow> length t < length s"
  by (induction s arbitrary: g) (auto split: option.splits dest!: closeAt_length)

lemma conflictBlockAt_length: "conflictBlockAt s = Some (g, t) \<Longrightarrow> length t < length s"
  by (auto simp: conflictBlockAt_def split: if_splits option.splits
      dest!: restOfLine_length splitOn_length findClose_length)

function removeConflictBlocks :: "string \<Rightarrow> string" where
  "removeConflictBlocks [] = []"
| "removeConflictBlocks (c # cs) =
     (case conflictBlockAt (c # cs) of
        Some (g, rest) \<Rightarrow> g @ removeConflictBlocks rest
      | None \<Rightarrow> c # removeConflictBlocks cs)"
  by pat_completeness auto
termination
  by (relation "measure length") (auto dest: conflictBlockAt_length)

text \<open>
  The replacement text of \<^verbatim>\<open>String.prototype.replace\<close> for a pattern without capture
  groups: \<^verbatim>\<open>$$\<close> is a dollar sign, \<^verbatim>\<open>$&\<close> the matched text, \<^verbatim>\<open>$`\<close> the text before the
  match and \<^verbatim>\<open>$'\<close> the text behind it; any other dollar sign stands for itself.
\<close>

fun expandReplacement :: "string \<Rightarrow> string \<Rightarrow> string \<Rightarrow> string \<Rightarrow> string" where
  "expandReplacement pre m post [] = []"
| "expandReplacement pre m post [c] = [c]"
| "expandReplacement pre m post (c # d # cs) =
     (if c = CHR ''$'' \<and> d = CHR ''$'' then CHR ''$'' # expandReplacement pre m post cs
      else if c = CHR ''$'' \<and> d = CHR ''&'' then m @ expandReplacement pre m post cs
      else if c = CHR ''$'' \<and> d = CHR 0x60 then pre @ expandReplacement pre m post cs
      else if c = CHR ''$'' \<and> d = CHR 0x27 then post @ expandReplacement pre m post cs
      else c # expandReplacement pre m post (d # cs))"

text \<open>\<^verbatim>\<open>resolvedContent.replace(/"version":\s*"[^"]+"/, `"version": "${higher}"`)\<close>:
  the first match only, the text unchanged when there is none.\<close>

definition replaceVersion :: "string \<Rightarrow> string \<Rightarrow> string" where
  "replaceVersion s higher =
     (case versionMatch s of
        None \<Rightarrow> s
      | Some (pre, m, v, post) \<Rightarrow>
          pre @ expandReplacement pre m post (versionKey @ '' '' @ [DQ] @ higher @ [DQ]) @ post)"

section \<open>The collaborators\<close>

text \<open>
  The engine reaches the repository through functions of other packages: the command
  runner (\<^verbatim>\<open>runSecure\<close>, \<^verbatim>\<open>run\<close>), the status inspector (\<^verbatim>\<open>getCurrentBranch\<close>,
  \<^verbatim>\<open>getGitStatusSummary\<close>), the storage (\<^verbatim>\<open>readFile\<close>, \<^verbatim>\<open>writeFile\<close>), the clock and
  \<^verbatim>\<open>semver.gt\<close>. Their code is not part of the repository, so they are parameters: an
  environment over a type \<open>'w\<close> of states of the outside world. A call takes the world and
  returns the new one with either the value (\<open>Inr\<close>) or the message of the error it throws
  (\<open>Inl\<close>). Logger calls are left out: the engine reads nothing back from them.
\<close>

type_synonym error = string

record gitStatus =
  hasUncommittedChanges :: bool
  hasUnstagedFiles :: bool
  uncommittedCount :: nat
  unstagedCount :: nat

record 'w env =
  runSecure_env :: "string \<Rightarrow> string list \<Rightarrow> 'w \<Rightarrow> (error + string) \<times> 'w"
  run_env :: "string \<Rightarrow> 'w \<Rightarrow> (error + string) \<times> 'w"
  getCurrentBranch_env :: "'w \<Rightarrow> (error + string) \<times> 'w"
  getGitStatusSummary_env :: "'w \<Rightarrow> (error + gitStatus) \<times> 'w"
  readFile_env :: "string \<Rightarrow> 'w \<Rightarrow> (error + string) \<times> 'w"
  writeFile_env :: "string \<Rightarrow> string \<Rightarrow> 'w \<Rightarrow> (error + unit) \<times> 'w"
  now_env :: "'w \<Rightarrow> nat \<times> 'w"
  semver_gt :: "string \<Rightarrow> string \<Rightarrow> error + bool"

text \<open>
  What the engine does to the outside is the sequence of its calls. The state threaded
  through the engine is the world together with that sequence, oldest call first; each
  entry says whether the call returned (\<open>True\<close>) or threw (\<open>False\<close>).
\<close>

datatype call =
  RunSecure string "string list"
| Run string
| GetCurrentBranch
| GetGitStatusSummary
| ReadFile string
| WriteFile string string
| DateNow

type_synonym event = "call \<times> bool"

type_synonym 'w st = "'w \<times> event list"

definition returned :: "error + 'a \<Rightarrow> bool" where
  "returned r = (case r of Inl e \<Rightarrow> False | Inr v \<Rightarrow> True)"

definition perform :: "call \<Rightarrow> ('w \<Rightarrow> (error + 'a) \<times> 'w) \<Rightarrow> 'w st \<Rightarrow> (error + 'a) \<times> 'w st" where
  "perform c f s =
     (case f (fst s) of (r, w') \<Rightarrow> (r, (w', snd s @ [(c, returned r)])))"

definition runSecure :: "'w env \<Rightarrow> string \<Rightarrow> string list \<Rightarrow> 'w st \<Rightarrow> (error + string) \<times> 'w st" where
  "runSecure E prog args = perform (RunSecure prog args) (runSecure_env E prog args)"

definition run :: "'w env \<Rightarrow> string \<Rightarrow> 'w st \<Rightarrow> (error + string) \<times> 'w st" where
  "run E cmd = perform (Run cmd) (run_env E cmd)"

definition getCurrentBranch :: "'w env \<Rightarrow> 'w st \<Rightarrow> (error + string) \<times> 'w st" where
  "getCurrentBranch E = perform GetCurrentBranch (getCurrentBranch_env E)"

definition getGitStatusSummary :: "'w env \<Rightarrow> 'w st \<Rightarrow> (error + gitStatus) \<times> 'w st" where
  "getGitStatusSummary E = perform GetGitStatusSummary (getGitStatusSummary_env E)"

definition readFile :: "'w env \<Rightarrow> string \<Rightarrow> 'w st \<Rightarrow> (error + string) \<times> 'w st" where
  "readFile E path = perform (ReadFile path) (readFile_env E path)"

definition writeFile :: "'w env \<Rightarrow> string \<Rightarrow> string \<Rightarrow> 'w st \<Rightarrow> (error + unit) \<times> 'w st" where
  "writeFile E path text = perform (WriteFile path text) (writeFile_env E path text)"

definition dateNow :: "'w env \<Rightarrow> 'w st \<Rightarrow> nat \<times> 'w st" where
  "dateNow E s = (case now_env E (fst s) of (t, w') \<Rightarrow> (t, (w', snd s @ [(DateNow, True)])))"

section \<open>Conflict resolver\<close>

text \<open>Lines 123-126: the version kept is ours when \<^verbatim>\<open>semver.gt\<close> says that ours, cut at
  the prerelease, is greater than theirs, cut the same way; it is theirs otherwise.\<close>

definition higherVersion :: "'w env \<Rightarrow> string \<Rightarrow> string \<Rightarrow> error + string" where
  "higherVersion E oursVersion theirsVersion =
     (case semver_gt E (stripPrerelease oursVersion) (stripPrerelease theirsVersion) of
        Inl e \<Rightarrow> Inl e
      | Inr b \<Rightarrow> Inr (if b then oursVersion else theirsVersion))"

text \<open>
  \<^verbatim>\<open>tryResolvePackageJsonConflict\<close> (lines 88-153). The result \<^verbatim>\<open>{ resolved, error? }\<close> is the
  pair of the two fields. Every error thrown inside the \<^verbatim>\<open>try\<close> block ends in the \<^verbatim>\<open>catch\<close>
  clause, which returns its message.
\<close>

definition tryResolvePackageJsonConflict ::
  "'w env \<Rightarrow> string \<Rightarrow> 'w st \<Rightarrow> (bool \<times> string option) \<times> 'w st" where
  "tryResolvePackageJsonConflict E filepath s =
     (case readFile E filepath s of
        (Inl e, s1) \<Rightarrow> ((False, Some e), s1)
      | (Inr content, s1) \<Rightarrow>
          if \<not> includesStr content ''<<<<<<<'' \<or> \<not> includesStr content ''>>>>>>>''
          then ((False, Some ''Not a conflict file''), s1)
          else
            (case (oursMatch content, theirsMatch content) of
               (Some oursPart, Some theirsPart) \<Rightarrow>
                 (case (versionMatch oursPart, versionMatch theirsPart) of
                    (Some (pre1, m1, oursVersion, post1), Some (pre2, m2, theirsVersion, post2)) \<Rightarrow>
                      (case higherVersion E oursVersion theirsVersion of
                         Inl e \<Rightarrow> ((False, Some e), s1)
                       | Inr higher \<Rightarrow>
                           (let resolvedContent =
                                  replaceVersion (removeConflictBlocks content) higher
                            in case writeFile E filepath resolvedContent s1 of
                                 (Inl e, s2) \<Rightarrow> ((False, Some e), s2)
                               | (Inr u, s2) \<Rightarrow> ((True, None), s2)))
                  | _ \<Rightarrow> ((False, Some ''Complex conflict - not just version''), s1))
             | _ \<Rightarrow> ((False, Some ''Cannot parse conflict markers''), s1)))"

text \<open>\<^verbatim>\<open>ConflictResolution\<close> (lines 34-39).\<close>

record ConflictResolution =
  cr_file :: string
  cr_resolved :: bool
  cr_strategy :: string
  cr_error :: "string option"

text \<open>The two commands that the cases \<^verbatim>\<open>'regenerate-lock'\<close>, \<^verbatim>\<open>'take-theirs'\<close> and
  \<^verbatim>\<open>'take-theirs-regenerate'\<close> of \<^verbatim>\<open>resolveConflict\<close> share (lines 171-185).\<close>

definition acceptTheirs :: "'w env \<Rightarrow> string \<Rightarrow> string \<Rightarrow> 'w st \<Rightarrow> ConflictResolution \<times> 'w st" where
  "acceptTheirs E filepath strategy s =
     (case runSecure E ''git'' [''checkout'', ''--theirs'', filepath] s of
        (Inl e, s1) \<Rightarrow>
          (\<lparr>cr_file = filepath, cr_resolved = False, cr_strategy = strategy, cr_error = Some e\<rparr>, s1)
      | (Inr out1, s1) \<Rightarrow>
          (case runSecure E ''git'' [''add'', filepath] s1 of
             (Inl e, s2) \<Rightarrow>
               (\<lparr>cr_file = filepath, cr_resolved = False, cr_strategy = strategy,
                 cr_error = Some e\<rparr>, s2)
           | (Inr out2, s2) \<Rightarrow>
               (\<lparr>cr_file = filepath, cr_resolved = True, cr_strategy = strategy,
                 cr_error = None\<rparr>, s2)))"

text \<open>\<^verbatim>\<open>resolveConflict\<close> (lines 158-202).\<close>

definition resolveConflict ::
  "'w env \<Rightarrow> string \<Rightarrow> string \<Rightarrow> bool \<Rightarrow> 'w st \<Rightarrow> ConflictResolution \<times> 'w st" where
  "resolveConflict E filepath strategy isDryRun s =
     (if isDryRun then
        (\<lparr>cr_file = filepath, cr_resolved = True, cr_strategy = strategy, cr_error = None\<rparr>, s)
      else if strategy = ''regenerate-lock'' then acceptTheirs E filepath strategy s
      else if strategy = ''take-theirs'' \<or> strategy = ''take-theirs-regenerate'' then
        acceptTheirs E filepath strategy s
      else if strategy = ''version-bump'' then
        (case tryResolvePackageJsonConflict E filepath s of
           ((ok, err), s1) \<Rightarrow>
             if ok then
               (case runSecure E ''git'' [''add'', filepath] s1 of
                  (Inl e, s2) \<Rightarrow>
                    (\<lparr>cr_file = filepath, cr_resolved = False, cr_strategy = strategy,
                      cr_error = Some e\<rparr>, s2)
                | (Inr out, s2) \<Rightarrow>
                    (\<lparr>cr_file = filepath, cr_resolved = True, cr_strategy = strategy,
                      cr_error = None\<rparr>, s2))
             else
               (\<lparr>cr_file = filepath, cr_resolved = False, cr_strategy = strategy,
                 cr_error = err\<rparr>, s1))
      else
        (\<lparr>cr_file = filepath, cr_resolved = False, cr_strategy = strategy,
          cr_error = Some ''Unknown resolution strategy''\<rparr>, s))"

text \<open>\<^verbatim>\<open>getConflictedFiles\<close> (lines 207-214).\<close>

definition getConflictedFiles :: "'w env \<Rightarrow> 'w st \<Rightarrow> string list \<times> 'w st" where
  "getConflictedFiles E s =
     (case runSecure E ''git'' [''diff'', ''--name-only'', ''--diff-filter=U''] s of
        (Inl e, s1) \<Rightarrow> ([], s1)
      | (Inr stdout, s1) \<Rightarrow> (filter (\<lambda>f. trim f \<noteq> []) (splitLines (trim stdout)), s1))"

text \<open>\<^verbatim>\<open>autoResolveConflicts\<close> (lines 219-254): the loop over the conflicted files, with the
  two lists it fills, and the function around it.\<close>

fun autoResolveLoop ::
  "'w env \<Rightarrow> bool \<Rightarrow> string list \<Rightarrow> string list \<Rightarrow> string list \<Rightarrow> 'w st
     \<Rightarrow> (string list \<times> string list) \<times> 'w st" where
  "autoResolveLoop E isDryRun [] resolved manual s = ((resolved, manual), s)"
| "autoResolveLoop E isDryRun (file # files) resolved manual s =
     (case canAutoResolve file of
        (canResolve, strategy) \<Rightarrow>
          if file = ''package.json'' \<or> endsWith file ''/package.json'' then
            (case resolveConflict E file ''version-bump'' isDryRun s of
               (result, s1) \<Rightarrow>
                 if cr_resolved result
                 then autoResolveLoop E isDryRun files (resolved @ [file]) manual s1
                 else autoResolveLoop E isDryRun files resolved (manual @ [file]) s1)
          else if canResolve then
            (case resolveConflict E file strategy isDryRun s of
               (result, s1) \<Rightarrow>
                 if cr_resolved result
                 then autoResolveLoop E isDryRun files (resolved @ [file]) manual s1
                 else autoResolveLoop E isDryRun files resolved (manual @ [file]) s1)
          else autoResolveLoop E isDryRun files resolved (manual @ [file]) s)"

definition autoResolveConflicts ::
  "'w env \<Rightarrow> bool \<Rightarrow> 'w st \<Rightarrow> (string list \<times> string list) \<times> 'w st" where
  "autoResolveConflicts E isDryRun s =
     (case getConflictedFiles E s of
        (conflictedFiles, s1) \<Rightarrow> autoResolveLoop E isDryRun conflictedFiles [] [] s1)"

section \<open>Stash guard and lock files\<close>

text \<open>\<^verbatim>\<open>stashIfNeeded\<close> (lines 259-272). Neither call stands in a \<^verbatim>\<open>try\<close> block.\<close>

definition stashIfNeeded :: "'w env \<Rightarrow> bool \<Rightarrow> 'w st \<Rightarrow> (error + bool) \<times> 'w st" where
  "stashIfNeeded E isDryRun s =
     (case getGitStatusSummary E s of
        (Inl e, s1) \<Rightarrow> (Inl e, s1)
      | (Inr status, s1) \<Rightarrow>
          if hasUncommittedChanges status \<or> hasUnstagedFiles status then
            (if \<not> isDryRun then
               (case dateNow E s1 of
                  (t, s2) \<Rightarrow>
                    (case runSecure E ''git''
                            [''stash'', ''push'', ''-m'', ''kodrdriv-pull-auto-stash-'' @ showNat t] s2 of
                       (Inl e, s3) \<Rightarrow> (Inl e, s3)
                     | (Inr out, s3) \<Rightarrow> (Inr True, s3)))
             else (Inr True, s1))
          else (Inr False, s1))"

text \<open>\<^verbatim>\<open>applyStashIfNeeded\<close> (lines 277-293).\<close>

definition applyStashIfNeeded :: "'w env \<Rightarrow> bool \<Rightarrow> bool \<Rightarrow> 'w st \<Rightarrow> bool \<times> 'w st" where
  "applyStashIfNeeded E didStash isDryRun s =
     (if \<not> didStash then (False, s)
      else if \<not> isDryRun then
        (case runSecure E ''git'' [''stash'', ''pop''] s of
           (Inr out, s1) \<Rightarrow> (True, s1)
         | (Inl e, s1) \<Rightarrow> (False, s1))
      else (True, s))"

text \<open>\<^verbatim>\<open>regenerateLockFiles\<close> (lines 298-314).\<close>

definition regenerateLockFiles :: "'w env \<Rightarrow> string list \<Rightarrow> bool \<Rightarrow> 'w st \<Rightarrow> 'w st" where
  "regenerateLockFiles E resolvedFiles isDryRun s =
     (let needsRegenerate =
            list_ex (\<lambda>f. f = ''package-lock.json'' \<or> endsWith f ''/package-lock.json'') resolvedFiles
      in if needsRegenerate \<and> \<not> isDryRun then snd (run E ''npm install'' s) else s)"

section \<open>Strategy cascade\<close>

text \<open>\<^verbatim>\<open>PullResult\<close> (lines 23-31); the four strategy literals are the constructors of
  \<open>PullStrategy\<close>.\<close>

datatype PullStrategy = FastForward | Rebase | Merge | Failed

record PullResult =
  success :: bool
  hadConflicts :: bool
  autoResolved :: "string list"
  manualRequired :: "string list"
  stashApplied :: bool
  strategy :: PullStrategy
  message :: string

text \<open>
  \<^verbatim>\<open>executePull\<close> (lines 319-524) is a sequence of blocks, each of which either returns
  the result of the pull or falls through to the next block. Each block is a function to
  \<open>PullResult option\<close>: \<open>Some\<close> is the \<^verbatim>\<open>return\<close>, \<open>None\<close> the fall through.
\<close>

definition remoteRef :: "string \<Rightarrow> string \<Rightarrow> string" where
  "remoteRef remote targetBranch = remote @ ''/'' @ targetBranch"

text \<open>Step 2, fetch (lines 333-351).\<close>

definition fetchStep ::
  "'w env \<Rightarrow> string \<Rightarrow> string \<Rightarrow> bool \<Rightarrow> bool \<Rightarrow> 'w st \<Rightarrow> PullResult option \<times> 'w st" where
  "fetchStep E remote targetBranch didStash isDryRun s =
     (if \<not> isDryRun then
        (case runSecure E ''git'' [''fetch'', remote, targetBranch] s of
           (Inr out, s1) \<Rightarrow> (None, s1)
         | (Inl e, s1) \<Rightarrow>
             (let s2 = (if didStash then snd (applyStashIfNeeded E True isDryRun s1) else s1)
              in (Some \<lparr>success = False, hadConflicts = False, autoResolved = [],
                         manualRequired = [], stashApplied = didStash, strategy = Failed,
                         message = ''Fetch failed: '' @ e\<rparr>, s2)))
      else (None, s))"

text \<open>Step 3, fast-forward (lines 353-372).\<close>

definition fastForwardStep ::
  "'w env \<Rightarrow> string \<Rightarrow> string \<Rightarrow> bool \<Rightarrow> bool \<Rightarrow> 'w st \<Rightarrow> PullResult option \<times> 'w st" where
  "fastForwardStep E remote targetBranch didStash isDryRun s =
     (if \<not> isDryRun then
        (case runSecure E ''git'' [''merge'', ''--ff-only'', remoteRef remote targetBranch] s of
           (Inr out, s1) \<Rightarrow>
             (case applyStashIfNeeded E didStash isDryRun s1 of
                (applied, s2) \<Rightarrow>
                  (Some \<lparr>success = True, hadConflicts = False, autoResolved = [],
                          manualRequired = [], stashApplied = didStash, strategy = FastForward,
                          message = ''Fast-forward merge successful''\<rparr>, s2))
         | (Inl e, s1) \<Rightarrow> (None, s1))
      else (None, s))"

text \<open>Steps 4 and 5, rebase and the resolution of its conflicts (lines 374-446).\<close>

definition rebaseStep ::
  "'w env \<Rightarrow> string \<Rightarrow> string \<Rightarrow> bool \<Rightarrow> bool \<Rightarrow> 'w st \<Rightarrow> PullResult option \<times> 'w st" where
  "rebaseStep E remote targetBranch didStash isDryRun s =
     (if \<not> isDryRun then
        (case runSecure E ''git'' [''rebase'', remoteRef remote targetBranch] s of
           (Inr out, s1) \<Rightarrow>
             (case applyStashIfNeeded E didStash isDryRun s1 of
                (applied, s2) \<Rightarrow>
                  (Some \<lparr>success = True, hadConflicts = False, autoResolved = [],
                          manualRequired = [], stashApplied = didStash, strategy = Rebase,
                          message = ''Rebase successful''\<rparr>, s2))
         | (Inl e, s1) \<Rightarrow>
             (case getConflictedFiles E s1 of
                (conflictedFiles, s2) \<Rightarrow>
                  if length conflictedFiles > 0 then
                    (case autoResolveConflicts E isDryRun s2 of
                       ((resolved, manual), s3) \<Rightarrow>
                         if length manual = 0 then
                           (case runSecure E ''git'' [''rebase'', ''--continue''] s3 of
                              (Inr out, s4) \<Rightarrow>
                                (case applyStashIfNeeded E didStash isDryRun
                                        (regenerateLockFiles E resolved isDryRun s4) of
                                   (applied, s5) \<Rightarrow>
                                     (Some \<lparr>success = True, hadConflicts = True,
                                             autoResolved = resolved, manualRequired = [],
                                             stashApplied = didStash, strategy = Rebase,
                                             message = ''Rebase successful with ''
                                               @ showNat (length resolved)
                                               @ '' auto-resolved conflicts''\<rparr>, s5))
                            | (Inl continueError, s4) \<Rightarrow> (None, s4))
                         else
                           (Some \<lparr>success = False, hadConflicts = True,
                                   autoResolved = resolved, manualRequired = manual,
                                   stashApplied = False, strategy = Rebase,
                                   message = ''Rebase paused: '' @ showNat (length manual)
                                     @ '' files need manual conflict resolution''\<rparr>, s3))
                  else
                    (case runSecure E ''git'' [''rebase'', ''--abort''] s2 of
                       (r, s3) \<Rightarrow> (None, s3))))
      else (None, s))"

text \<open>Step 6, merge (lines 448-508).\<close>

definition mergeStep ::
  "'w env \<Rightarrow> string \<Rightarrow> string \<Rightarrow> bool \<Rightarrow> bool \<Rightarrow> 'w st \<Rightarrow> PullResult option \<times> 'w st" where
  "mergeStep E remote targetBranch didStash isDryRun s =
     (if \<not> isDryRun then
        (case runSecure E ''git'' [''merge'', remoteRef remote targetBranch] s of
           (Inr out, s1) \<Rightarrow>
             (case applyStashIfNeeded E didStash isDryRun s1 of
                (applied, s2) \<Rightarrow>
                  (Some \<lparr>success = True, hadConflicts = False, autoResolved = [],
                          manualRequired = [], stashApplied = didStash, strategy = Merge,
                          message = ''Merge successful''\<rparr>, s2))
         | (Inl e, s1) \<Rightarrow>
             (case getConflictedFiles E s1 of
                (conflictedFiles, s2) \<Rightarrow>
                  if length conflictedFiles > 0 then
                    (case autoResolveConflicts E isDryRun s2 of
                       ((resolved, manual), s3) \<Rightarrow>
                         if length manual = 0 then
                           (case runSecure E ''git''
                                   [''commit'', ''-m'',
                                    ''Merge '' @ remoteRef remote targetBranch
                                      @ '' (auto-resolved by kodrdriv)''] s3 of
                              (Inr out, s4) \<Rightarrow>
                                (case applyStashIfNeeded E didStash isDryRun
                                        (regenerateLockFiles E resolved isDryRun s4) of
                                   (applied, s5) \<Rightarrow>
                                     (Some \<lparr>success = True, hadConflicts = True,
                                             autoResolved = resolved, manualRequired = [],
                                             stashApplied = didStash, strategy = Merge,
                                             message = ''Merge successful with ''
                                               @ showNat (length resolved)
                                               @ '' auto-resolved conflicts''\<rparr>, s5))
                            | (Inl commitError, s4) \<Rightarrow> (None, s4))
                         else
                           (Some \<lparr>success = False, hadConflicts = True,
                                   autoResolved = resolved, manualRequired = manual,
                                   stashApplied = False, strategy = Merge,
                                   message = ''Merge paused: '' @ showNat (length manual)
                                     @ '' files need manual conflict resolution''\<rparr>, s3))
                  else (None, s2)))
      else (None, s))"

text \<open>The last \<^verbatim>\<open>return\<close> (lines 510-523).\<close>

definition pullFailed :: PullResult where
  "pullFailed =
     \<lparr>success = False, hadConflicts = False, autoResolved = [], manualRequired = [],
      stashApplied = False, strategy = Failed,
      message = ''Pull failed - unable to merge or rebase''\<rparr>"

text \<open>\<^verbatim>\<open>branch || currentBranch\<close> (line 326): the current branch when the option is
  undefined or the empty string.\<close>

definition branchOr :: "string option \<Rightarrow> string \<Rightarrow> string" where
  "branchOr branch currentBranch =
     (case branch of
        None \<Rightarrow> currentBranch
      | Some b \<Rightarrow> if b = [] then currentBranch else b)"

text \<open>
  \<^verbatim>\<open>executePull\<close>. \<^verbatim>\<open>getCurrentBranch\<close> and \<^verbatim>\<open>stashIfNeeded\<close> are awaited
  outside every \<^verbatim>\<open>try\<close> block: what they throw leaves \<^verbatim>\<open>executePull\<close> as it is.
\<close>

definition executePull ::
  "'w env \<Rightarrow> string \<Rightarrow> string option \<Rightarrow> bool \<Rightarrow> 'w st \<Rightarrow> (error + PullResult) \<times> 'w st" where
  "executePull E remote branch isDryRun s =
     (case getCurrentBranch E s of
        (Inl e, s1) \<Rightarrow> (Inl e, s1)
      | (Inr currentBranch, s1) \<Rightarrow>
          (let targetBranch = branchOr branch currentBranch
           in case stashIfNeeded E isDryRun s1 of
                (Inl e, s2) \<Rightarrow> (Inl e, s2)
              | (Inr didStash, s2) \<Rightarrow>
                  (case fetchStep E remote targetBranch didStash isDryRun s2 of
                     (Some res, s3) \<Rightarrow> (Inr res, s3)
                   | (None, s3) \<Rightarrow>
                       (case fastForwardStep E remote targetBranch didStash isDryRun s3 of
                          (Some res, s4) \<Rightarrow> (Inr res, s4)
                        | (None, s4) \<Rightarrow>
                            (case rebaseStep E remote targetBranch didStash isDryRun s4 of
                               (Some res, s5) \<Rightarrow> (Inr res, s5)
                             | (None, s5) \<Rightarrow>
                                 (case mergeStep E remote targetBranch didStash isDryRun s5 of
                                    (Some res, s6) \<Rightarrow> (Inr res, s6)
                                  | (None, s6) \<Rightarrow> (Inr pullFailed, s6)))))))"

section \<open>The command\<close>

text \<open>The part of \<^verbatim>\<open>Config\<close> that the command reads: \<^verbatim>\<open>dryRun\<close> and \<^verbatim>\<open>pull\<close>, with
  \<^verbatim>\<open>pull.remote\<close> and \<^verbatim>\<open>pull.branch\<close>; each may be undefined.\<close>

record PullConfig =
  pull_remote :: "string option"
  pull_branch :: "string option"

record Config =
  dryRun :: "bool option"
  pull :: "PullConfig option"

text \<open>
  The report of \<^verbatim>\<open>executeInternal\<close> (lines 541-577). Its six symbols lie outside the 8-bit
  characters and are parameters: the box line \<^verbatim>\<open>U+2550\<close>, the signs in front of the two
  banners, the tick, the cross and the information sign.
\<close>

record glyphs =
  boxLine :: string
  completeSign :: string
  attentionSign :: string
  tickSign :: string
  crossSign :: string
  infoSign :: string

definition showStrategy :: "PullStrategy \<Rightarrow> string" where
  "showStrategy x =
     (case x of FastForward \<Rightarrow> ''fast-forward'' | Rebase \<Rightarrow> ''rebase''
      | Merge \<Rightarrow> ''merge'' | Failed \<Rightarrow> ''failed'')"

fun joinLines :: "string list \<Rightarrow> string" where
  "joinLines [] = []"
| "joinLines [l] = l"
| "joinLines (l # m # ls) = l @ [LF] @ joinLines (m # ls)"

definition formatResult :: "glyphs \<Rightarrow> PullResult \<Rightarrow> string" where
  "formatResult G result =
     (let rule = concat (replicate 60 (boxLine G)) in
      joinLines
        ([[], rule,
          (if success result then completeSign G @ '' PULL COMPLETE''
           else attentionSign G @ ''  PULL NEEDS ATTENTION''),
          rule, [],
          ''Strategy: '' @ showStrategy (strategy result),
          ''Message: '' @ message result]
         @ (if hadConflicts result then
              [[], ''Conflicts detected: ''
                     @ showNat (length (autoResolved result) + length (manualRequired result))]
              @ (if length (autoResolved result) > 0 then
                   (tickSign G @ '' Auto-resolved: '' @ showNat (length (autoResolved result)))
                   # map (\<lambda>f. ''   - '' @ f) (autoResolved result)
                 else [])
              @ (if length (manualRequired result) > 0 then
                   (crossSign G @ '' Manual resolution needed: ''
                      @ showNat (length (manualRequired result)))
                   # map (\<lambda>f. ''   - '' @ f) (manualRequired result)
                 else [])
            else [])
         @ (if stashApplied result then
              [[], infoSign G @ ''  Local changes have been restored from stash'']
            else [])
         @ [[], rule]))"

text \<open>\<^verbatim>\<open>executeInternal\<close> (lines 529-578): \<^verbatim>\<open>x || d\<close> is \<open>d\<close> when \<open>x\<close> is undefined, false or
  the empty string.\<close>

definition executeInternal :: "'w env \<Rightarrow> glyphs \<Rightarrow> Config \<Rightarrow> 'w st \<Rightarrow> (error + string) \<times> 'w st" where
  "executeInternal E G runConfig s =
     (let isDryRun = (case dryRun runConfig of None \<Rightarrow> False | Some b \<Rightarrow> b);
          pullConfig = (case pull runConfig of
                          None \<Rightarrow> \<lparr>pull_remote = None, pull_branch = None\<rparr>
                        | Some c \<Rightarrow> c);
          remote = (case pull_remote pullConfig of
                      None \<Rightarrow> ''origin''
                    | Some r \<Rightarrow> if r = [] then ''origin'' else r);
          branch = pull_branch pullConfig
      in case executePull E remote branch isDryRun s of
           (Inl e, s1) \<Rightarrow> (Inl e, s1)
         | (Inr result, s1) \<Rightarrow> (Inr (formatResult G result), s1))"

text \<open>\<^verbatim>\<open>execute\<close> (lines 583-591), the exported command: its \<^verbatim>\<open>catch\<close> clause logs the error
  and throws it again.\<close>

definition execute :: "'w env \<Rightarrow> glyphs \<Rightarrow> Config \<Rightarrow> 'w st \<Rightarrow> (error + string) \<times> 'w st" where
  "execute E G runConfig s =
     (case executeInternal E G runConfig s of
        (Inl e, s1) \<Rightarrow> (Inl e, s1)
      | (Inr output, s1) \<Rightarrow> (Inr output, s1))"

section \<open>The strategy commands of a run\<close>

text \<open>
  The commands by which the cascade tries a strategy, read off the calls of a run:
  \<^verbatim>\<open>git merge --ff-only <ref>\<close>, \<^verbatim>\<open>git rebase <ref>\<close>, \<^verbatim>\<open>git rebase --continue\<close>,
  \<^verbatim>\<open>git rebase --abort\<close> and \<^verbatim>\<open>git merge <ref>\<close>. \<open>attempts\<close> keeps them in the order of
  the run, each with the flag that says whether it returned.
\<close>

datatype strategyCommand =
  FastForwardCmd | RebaseCmd | RebaseContinueCmd | RebaseAbortCmd | MergeCmd

fun commandOf :: "call \<Rightarrow> strategyCommand option" where
  "commandOf (RunSecure prog [a, b, c]) =
     (if a = ''merge'' \<and> b = ''--ff-only'' then Some FastForwardCmd else None)"
| "commandOf (RunSecure prog [a, b]) =
     (if a = ''merge'' then Some MergeCmd
      else if a = ''rebase'' \<and> b = ''--continue'' then Some RebaseContinueCmd
      else if a = ''rebase'' \<and> b = ''--abort'' then Some RebaseAbortCmd
      else if a = ''rebase'' then Some RebaseCmd
      else None)"
| "commandOf c = None"

fun attempts :: "event list \<Rightarrow> (strategyCommand \<times> bool) list" where
  "attempts [] = []"
| "attempts ((c, ok) # T) =
     (case commandOf c of None \<Rightarrow> attempts T | Some k \<Rightarrow> (k, ok) # attempts T)"

text \<open>The place of a strategy command in the cascade: fast-forward, then rebase with its
  continuation or abort, then merge.\<close>

fun rank :: "strategyCommand \<Rightarrow> nat" where
  "rank FastForwardCmd = 0"
| "rank RebaseCmd = 1"
| "rank RebaseContinueCmd = 1"
| "rank RebaseAbortCmd = 1"
| "rank MergeCmd = 2"

text \<open>The eleven sequences of strategy commands that a run of \<^verbatim>\<open>executePull\<close> can
  leave.\<close>

definition cascadeShapes :: "(strategyCommand \<times> bool) list set" where
  "cascadeShapes =
     {[], [(FastForwardCmd, True)],
      [(FastForwardCmd, False), (RebaseCmd, True)],
      [(FastForwardCmd, False), (RebaseCmd, False)],
      [(FastForwardCmd, False), (RebaseCmd, False), (RebaseContinueCmd, True)],
      [(FastForwardCmd, False), (RebaseCmd, False), (RebaseContinueCmd, False), (MergeCmd, True)],
      [(FastForwardCmd, False), (RebaseCmd, False), (RebaseContinueCmd, False), (MergeCmd, False)],
      [(FastForwardCmd, False), (RebaseCmd, False), (RebaseAbortCmd, True), (MergeCmd, True)],
      [(FastForwardCmd, False), (RebaseCmd, False), (RebaseAbortCmd, True), (MergeCmd, False)],
      [(FastForwardCmd, False), (RebaseCmd, False), (RebaseAbortCmd, False), (MergeCmd, True)],
      [(FastForwardCmd, False), (RebaseCmd, False), (RebaseAbortCmd, False), (MergeCmd, False)]}"

section \<open>An environment to run the engine in\<close>

text \<open>
  Modelled from the spec: \<^verbatim>\<open>semver.gt\<close> belongs to the package \<^verbatim>\<open>semver\<close>, whose code is
  not part of the repository; the specification only says that the comparison finds the
  higher of two versions. The stand-in reads a version \<^verbatim>\<open>MAJOR.MINOR.PATCH\<close> of three
  decimal numbers without leading zeros, compares the numbers from the left, and throws
  on any other text.
\<close>

fun splitDots :: "string \<Rightarrow> string list" where
  "splitDots [] = [[]]"
| "splitDots (c # cs) =
     (if c = CHR ''.'' then [] # splitDots cs
      else (case splitDots cs of l # ls \<Rightarrow> (c # l) # ls | [] \<Rightarrow> [[c]]))"

definition isNumeric :: "string \<Rightarrow> bool" where
  "isNumeric x =
     (x \<noteq> [] \<and> list_all (\<lambda>c. c \<in> set ''0123456789'') x \<and> (length x = 1 \<or> hd x \<noteq> CHR ''0''))"

definition numberOf :: "string \<Rightarrow> nat" where
  "numberOf x = foldl (\<lambda>n c. 10 * n + (of_char c - 48)) 0 x"

definition parseVersion :: "string \<Rightarrow> (nat \<times> nat \<times> nat) option" where
  "parseVersion v =
     (case splitDots v of
        [a, b, c] \<Rightarrow>
          if isNumeric a \<and> isNumeric b \<and> isNumeric c
          then Some (numberOf a, numberOf b, numberOf c) else None
      | _ \<Rightarrow> None)"

fun versionLess :: "nat \<times> nat \<times> nat \<Rightarrow> nat \<times> nat \<times> nat \<Rightarrow> bool" where
  "versionLess (a1, a2, a3) (b1, b2, b3) =
     (a1 < b1 \<or> (a1 = b1 \<and> (a2 < b2 \<or> (a2 = b2 \<and> a3 < b3))))"

definition semverGt :: "string \<Rightarrow> string \<Rightarrow> error + bool" where
  "semverGt a b =
     (case parseVersion a of
        None \<Rightarrow> Inl (''Invalid Version: '' @ a)
      | Some x \<Rightarrow>
          (case parseVersion b of
             None \<Rightarrow> Inl (''Invalid Version: '' @ b)
           | Some y \<Rightarrow> Inr (versionLess y x)))"

text \<open>
  A repository without a memory of its own, to run the engine on examples: the world is
  the list of the files written and their texts, latest first; a command throws when
  \<open>fails\<close> holds of its arguments; \<^verbatim>\<open>git diff --name-only --diff-filter=U\<close> prints
  \<open>unmerged\<close>; the status inspector answers \<open>status\<close> on the branch \<^verbatim>\<open>main\<close>.
\<close>

definition simEnv ::
  "(string list \<Rightarrow> bool) \<Rightarrow> string \<Rightarrow> gitStatus \<Rightarrow> ((string \<times> string) list) env" where
  "simEnv fails unmerged status =
     \<lparr>runSecure_env =
        (\<lambda>prog args w.
           (if fails args then Inl ''command failed''
            else Inr (if args = [''diff'', ''--name-only'', ''--diff-filter=U''] then unmerged
                      else []), w)),
      run_env = (\<lambda>cmd w. (Inr [], w)),
      getCurrentBranch_env = (\<lambda>w. (Inr ''main'', w)),
      getGitStatusSummary_env = (\<lambda>w. (Inr status, w)),
      readFile_env =
        (\<lambda>path w. (case map_of w path of
                       None \<Rightarrow> Inl (''ENOENT: '' @ path)
                     | Some text \<Rightarrow> Inr text, w)),
      writeFile_env = (\<lambda>path text w. (Inr (), (path, text) # w)),
      now_env = (\<lambda>w. (1700000000000, w)),
      semver_gt = semverGt\<rparr>"

definition cleanTree :: gitStatus where
  "cleanTree =
     \<lparr>hasUncommittedChanges = False, hasUnstagedFiles = False, uncommittedCount = 0,
      unstagedCount = 0\<rparr>"

definition dirtyTree :: gitStatus where
  "dirtyTree =
     \<lparr>hasUncommittedChanges = True, hasUnstagedFiles = False, uncommittedCount = 1,
      unstagedCount = 0\<rparr>"

text \<open>A manifest in conflict on its version alone, ours and theirs as given.\<close>

definition manifest :: "string \<Rightarrow> string \<Rightarrow> string" where
  "manifest ours theirs =
     ''{'' @ [LF]
     @ ''<<<<<<< HEAD'' @ [LF]
     @ ''  '' @ versionKey @ '' '' @ [DQ] @ ours @ [DQ] @ '','' @ [LF]
     @ separator
     @ ''  '' @ versionKey @ '' '' @ [DQ] @ theirs @ [DQ] @ '','' @ [LF]
     @ ''>>>>>>> origin/main'' @ [LF]
     @ ''  '' @ [DQ] @ ''private'' @ [DQ] @ '': true'' @ [LF]
     @ ''}'' @ [LF]"

text \<open>The manifest once the conflict is resolved to a version.\<close>

definition resolvedManifest :: "string \<Rightarrow> string" where
  "resolvedManifest v =
     ''{'' @ [LF]
     @ ''  '' @ versionKey @ '' '' @ [DQ] @ v @ [DQ] @ '','' @ [LF]
     @ ''  '' @ [DQ] @ ''private'' @ [DQ] @ '': true'' @ [LF]
     @ ''}'' @ [LF]"

text \<open>Stand-ins in ASCII for the six symbols of the report, and five repositories: one
  whose rebase stops on \<^verbatim>\<open>src/app.ts\<close>, with local changes; one whose only conflict is the
  lock file and whose \<^verbatim>\<open>rebase --continue\<close> fails; one whose only conflict is the manifest
  and whose \<^verbatim>\<open>rebase --continue\<close> and merge both fail; one whose fetch and whose
  \<^verbatim>\<open>stash pop\<close> fail, with local changes; one whose \<^verbatim>\<open>stash push\<close> fails, with local
  changes.\<close>

definition asciiGlyphs :: glyphs where
  "asciiGlyphs =
     \<lparr>boxLine = ''='', completeSign = ''[ok]'', attentionSign = ''[!]'', tickSign = ''+'',
      crossSign = ''x'', infoSign = ''(i)''\<rparr>"

definition pausedEnv :: "((string \<times> string) list) env" where
  "pausedEnv =
     simEnv (\<lambda>a. a = [''merge'', ''--ff-only'', ''origin/main''] \<or> a = [''rebase'', ''origin/main''])
       (''src/app.ts'' @ [LF] @ ''package-lock.json'' @ [LF]) dirtyTree"

definition continueFailsEnv :: "((string \<times> string) list) env" where
  "continueFailsEnv =
     simEnv (\<lambda>a. a = [''merge'', ''--ff-only'', ''origin/main''] \<or> a = [''rebase'', ''origin/main'']
                \<or> a = [''rebase'', ''--continue''])
       (''package-lock.json'' @ [LF]) cleanTree"

definition mergePausedEnv :: "((string \<times> string) list) env" where
  "mergePausedEnv =
     simEnv (\<lambda>a. a = [''merge'', ''--ff-only'', ''origin/main''] \<or> a = [''rebase'', ''origin/main'']
                \<or> a = [''rebase'', ''--continue''] \<or> a = [''merge'', ''origin/main''])
       (''package.json'' @ [LF]) cleanTree"

definition fetchFailsEnv :: "((string \<times> string) list) env" where
  "fetchFailsEnv =
     simEnv (\<lambda>a. a = [''fetch'', ''origin'', ''main''] \<or> a = [''stash'', ''pop'']) [] dirtyTree"

definition stashFailsEnv :: "((string \<times> string) list) env" where
  "stashFailsEnv = simEnv (\<lambda>a. take 2 a = [''stash'', ''push'']) [] dirtyTree"

section \<open>Properties of the classifier\<close>

lemma startsWith_Nil: "startsWith s []"
  by (simp add: startsWith_def)

lemma startsWith_Cons: "startsWith s (c # p) \<longleftrightarrow> (\<exists>t. s = c # t \<and> startsWith t p)"
  by (cases s) (auto simp: startsWith_def)

text \<open>
  Claim C4 does not hold as it is stated. The claim says that a lock file in any subdirectory is classified
  \<^verbatim>\<open>regenerate-lock\<close>. The three lock patterns are anchored at both ends, so the
  classifier answers \<^verbatim>\<open>regenerate-lock\<close> exactly for the three file names themselves;
  \<^verbatim>\<open>packages/app/package-lock.json\<close> is classified \<^verbatim>\<open>manual\<close>.
\<close>

theorem nested_lock_file_is_manual:
  "endsWith ''packages/app/package-lock.json'' ''/package-lock.json''
   \<and> canAutoResolve ''packages/app/package-lock.json'' = (False, ''manual'')
   \<and> snd (canAutoResolve ''packages/app/package-lock.json'') \<noteq> ''regenerate-lock''"
  by (simp add: canAutoResolve_def pattern_defs startsWith_def endsWith_def)

text \<open>
  Claim C4, as amended: the classifier returns \<^verbatim>\<open>regenerate-lock\<close> for a path if and only if the
  path is exactly \<^verbatim>\<open>package-lock.json\<close>, \<^verbatim>\<open>yarn.lock\<close> or \<^verbatim>\<open>pnpm-lock.yaml\<close>.
\<close>

theorem lock_file_exact_name:
  "canAutoResolve f = (True, ''regenerate-lock'')
     \<longleftrightarrow> f \<in> {''package-lock.json'', ''yarn.lock'', ''pnpm-lock.yaml''}"
  by (auto simp: canAutoResolve_def pattern_defs)

theorem lock_file_exact_name_witness:
  "canAutoResolve ''yarn.lock'' = (True, ''regenerate-lock'')
   \<and> canAutoResolve ''sub/yarn.lock'' \<noteq> (True, ''regenerate-lock'')"
  using lock_file_exact_name [of "''yarn.lock''"] lock_file_exact_name [of "''sub/yarn.lock''"]
  by simp

text \<open>
  Claim C8 does not hold as it is stated. The claim gives \<^verbatim>\<open>take-theirs-regenerate\<close> to every path that ends in
  \<^verbatim>\<open>.js.map\<close> or \<^verbatim>\<open>.d.ts\<close>, and \<^verbatim>\<open>take-theirs\<close> to every path under \<^verbatim>\<open>node_modules/\<close>; a
  path can be both. The rules are tried in order and the first match wins:
  \<^verbatim>\<open>node_modules/pkg/index.d.ts\<close> is classified \<^verbatim>\<open>take-theirs\<close>.
\<close>

theorem build_output_under_node_modules:
  "nodeModules ''node_modules/pkg/index.d.ts''
   \<and> endsWith ''node_modules/pkg/index.d.ts'' ''.d.ts''
   \<and> canAutoResolve ''node_modules/pkg/index.d.ts'' = (True, ''take-theirs'')
   \<and> snd (canAutoResolve ''node_modules/pkg/index.d.ts'') \<noteq> ''take-theirs-regenerate''"
  by (simp add: canAutoResolve_def pattern_defs startsWith_def endsWith_def)

text \<open>
  Claim C8, as amended: every path with prefix \<^verbatim>\<open>node_modules/\<close> or \<^verbatim>\<open>coverage/\<close> is classified
  \<^verbatim>\<open>take-theirs\<close>; every path with prefix \<^verbatim>\<open>dist/\<close>, and every path with suffix \<^verbatim>\<open>.js.map\<close>
  or \<^verbatim>\<open>.d.ts\<close> that is not under \<^verbatim>\<open>node_modules/\<close> or \<^verbatim>\<open>coverage/\<close>, is classified
  \<^verbatim>\<open>take-theirs-regenerate\<close>; every path that matches none of the seven patterns is
  classified \<^verbatim>\<open>manual\<close>.
\<close>

theorem classifier_first_match:
  "(nodeModules f \<or> coverage f \<longrightarrow> canAutoResolve f = (True, ''take-theirs''))
   \<and> (dist f \<longrightarrow> canAutoResolve f = (True, ''take-theirs-regenerate''))
   \<and> (buildOutput f \<and> \<not> nodeModules f \<and> \<not> coverage f \<longrightarrow>
        canAutoResolve f = (True, ''take-theirs-regenerate''))
   \<and> (\<not> packageLock f \<and> \<not> yarnLock f \<and> \<not> pnpmLock f \<and> \<not> dist f \<and> \<not> coverage f
        \<and> \<not> nodeModules f \<and> \<not> buildOutput f \<longrightarrow>
        canAutoResolve f = (False, ''manual''))"
  by (auto simp: canAutoResolve_def pattern_defs startsWith_Cons startsWith_Nil endsWith_def)

theorem classifier_first_match_witness:
  "canAutoResolve ''coverage/lcov.info'' = (True, ''take-theirs'')
   \<and> canAutoResolve ''dist/index.js'' = (True, ''take-theirs-regenerate'')
   \<and> canAutoResolve ''src/types.d.ts'' = (True, ''take-theirs-regenerate'')
   \<and> canAutoResolve ''src/app.ts'' = (False, ''manual'')"
proof -
  have a: "coverage ''coverage/lcov.info''"
    by (simp add: pattern_defs startsWith_def)
  have b: "dist ''dist/index.js''"
    by (simp add: pattern_defs startsWith_def)
  have c: "buildOutput ''src/types.d.ts'' \<and> \<not> nodeModules ''src/types.d.ts''
             \<and> \<not> coverage ''src/types.d.ts''"
    by (simp add: pattern_defs startsWith_def endsWith_def)
  have d: "\<not> packageLock ''src/app.ts'' \<and> \<not> yarnLock ''src/app.ts'' \<and> \<not> pnpmLock ''src/app.ts''
             \<and> \<not> dist ''src/app.ts'' \<and> \<not> coverage ''src/app.ts''
             \<and> \<not> nodeModules ''src/app.ts'' \<and> \<not> buildOutput ''src/app.ts''"
    by (simp add: pattern_defs startsWith_def endsWith_def)
  have 1: "canAutoResolve ''coverage/lcov.info'' = (True, ''take-theirs'')"
    using classifier_first_match [of "''coverage/lcov.info''"] a by simp
  have 2: "canAutoResolve ''dist/index.js'' = (True, ''take-theirs-regenerate'')"
    using classifier_first_match [of "''dist/index.js''"] b by simp
  have 3: "canAutoResolve ''src/types.d.ts'' = (True, ''take-theirs-regenerate'')"
    using classifier_first_match [of "''src/types.d.ts''"] c by simp
  have 4: "canAutoResolve ''src/app.ts'' = (False, ''manual'')"
    using classifier_first_match [of "''src/app.ts''"] d by simp
  show ?thesis
    using 1 2 3 4 by simp
qed

section \<open>Properties of the cascade\<close>

subsection \<open>Which calls are strategy commands\<close>

text \<open>Only the four blocks of \<^verbatim>\<open>executePull\<close> issue strategy commands: the functions they
  call leave the strategy commands of a run as they found them.\<close>

lemma attempts_append: "attempts (A @ B) = attempts A @ attempts B"
  by (induction A) (auto split: option.splits)

lemma perform_attempts:
  "perform c f s = (r, s') \<Longrightarrow> attempts (snd s') = attempts (snd s) @ attempts [(c, returned r)]"
  by (auto simp: perform_def attempts_append split: prod.splits)

lemma runSecure_attempts:
  "runSecure E prog args s = (r, s') \<Longrightarrow>
     attempts (snd s') = attempts (snd s) @ attempts [(RunSecure prog args, returned r)]"
  unfolding runSecure_def by (rule perform_attempts)

lemma run_attempts: "run E cmd s = (r, s') \<Longrightarrow> attempts (snd s') = attempts (snd s)"
  unfolding run_def by (drule perform_attempts) simp

lemma getCurrentBranch_attempts:
  "getCurrentBranch E s = (r, s') \<Longrightarrow> attempts (snd s') = attempts (snd s)"
  unfolding getCurrentBranch_def by (drule perform_attempts) simp

lemma getGitStatusSummary_attempts:
  "getGitStatusSummary E s = (r, s') \<Longrightarrow> attempts (snd s') = attempts (snd s)"
  unfolding getGitStatusSummary_def by (drule perform_attempts) simp

lemma readFile_attempts: "readFile E p s = (r, s') \<Longrightarrow> attempts (snd s') = attempts (snd s)"
  unfolding readFile_def by (drule perform_attempts) simp

lemma writeFile_attempts: "writeFile E p t s = (r, s') \<Longrightarrow> attempts (snd s') = attempts (snd s)"
  unfolding writeFile_def by (drule perform_attempts) simp

lemma dateNow_attempts: "dateNow E s = (t, s') \<Longrightarrow> attempts (snd s') = attempts (snd s)"
  by (auto simp: dateNow_def attempts_append split: prod.splits)

lemma getConflictedFiles_attempts:
  "getConflictedFiles E s = (fs, s') \<Longrightarrow> attempts (snd s') = attempts (snd s)"
  by (auto simp: getConflictedFiles_def split: prod.splits sum.splits dest!: runSecure_attempts)

lemma tryResolve_attempts:
  "tryResolvePackageJsonConflict E p s = (r, s') \<Longrightarrow> attempts (snd s') = attempts (snd s)"
  by (auto simp: tryResolvePackageJsonConflict_def Let_def
      split: prod.splits sum.splits if_splits option.splits
      dest!: readFile_attempts writeFile_attempts)

lemma acceptTheirs_attempts:
  "acceptTheirs E p st s = (r, s') \<Longrightarrow> attempts (snd s') = attempts (snd s)"
  by (auto simp: acceptTheirs_def split: prod.splits sum.splits dest!: runSecure_attempts)

lemma resolveConflict_attempts:
  "resolveConflict E p st d s = (r, s') \<Longrightarrow> attempts (snd s') = attempts (snd s)"
  by (auto simp: resolveConflict_def split: prod.splits sum.splits if_splits
      dest!: runSecure_attempts tryResolve_attempts acceptTheirs_attempts)

lemma autoResolveLoop_attempts:
  "autoResolveLoop E d fs res man s = (r, s') \<Longrightarrow> attempts (snd s') = attempts (snd s)"
proof (induction fs arbitrary: res man s)
  case Nil
  then show ?case by simp
next
  case (Cons f fs)
  then show ?case
    by (auto split: prod.splits if_splits dest!: resolveConflict_attempts)
qed

lemma autoResolveConflicts_attempts:
  "autoResolveConflicts E d s = (r, s') \<Longrightarrow> attempts (snd s') = attempts (snd s)"
  by (auto simp: autoResolveConflicts_def split: prod.splits
      dest!: getConflictedFiles_attempts autoResolveLoop_attempts)

lemma stashIfNeeded_attempts:
  "stashIfNeeded E d s = (r, s') \<Longrightarrow> attempts (snd s') = attempts (snd s)"
  by (auto simp: stashIfNeeded_def split: prod.splits sum.splits if_splits
      dest!: getGitStatusSummary_attempts dateNow_attempts runSecure_attempts)

lemma applyStashIfNeeded_attempts:
  "applyStashIfNeeded E b d s = (r, s') \<Longrightarrow> attempts (snd s') = attempts (snd s)"
  by (auto simp: applyStashIfNeeded_def split: prod.splits sum.splits if_splits
      dest!: runSecure_attempts)

lemma regenerateLockFiles_attempts:
  "attempts (snd (regenerateLockFiles E fs d s)) = attempts (snd s)"
  by (cases "run E ''npm install'' s") (auto simp: regenerateLockFiles_def Let_def dest!: run_attempts)

text \<open>A reference \<^verbatim>\<open><remote>/<branch>\<close> contains a slash, so it is none of the options.\<close>

lemma remoteRef_not_option:
  "remoteRef r t \<noteq> ''--continue''" "remoteRef r t \<noteq> ''--abort''" "remoteRef r t \<noteq> ''--ff-only''"
proof -
  have "CHR ''/'' \<in> set (remoteRef r t)" by (simp add: remoteRef_def)
  then show "remoteRef r t \<noteq> ''--continue''" "remoteRef r t \<noteq> ''--abort''"
    "remoteRef r t \<noteq> ''--ff-only''"
    by auto
qed

lemma fetchStep_attempts:
  "fetchStep E r t d dry s = (res, s') \<Longrightarrow> attempts (snd s') = attempts (snd s)"
  by (cases "applyStashIfNeeded E True dry (snd (runSecure E ''git'' [''fetch'', r, t] s))")
     (auto simp: fetchStep_def Let_def split: prod.splits sum.splits if_splits
      dest!: runSecure_attempts applyStashIfNeeded_attempts)

lemma fastForwardStep_attempts:
  "fastForwardStep E r t d dry s = (res, s') \<Longrightarrow>
     (if dry then res = None \<and> s' = s
      else attempts (snd s') = attempts (snd s) @ [(FastForwardCmd, res \<noteq> None)])"
  by (auto simp: fastForwardStep_def returned_def split: prod.splits sum.splits if_splits
      dest!: runSecure_attempts applyStashIfNeeded_attempts)

lemma rebaseStep_attempts:
  "rebaseStep E r t d dry s = (res, s') \<Longrightarrow>
     (if dry then res = None \<and> s' = s
      else (res \<noteq> None \<and> attempts (snd s') = attempts (snd s) @ [(RebaseCmd, True)])
         \<or> (res \<noteq> None \<and> attempts (snd s') = attempts (snd s) @ [(RebaseCmd, False)])
         \<or> (res \<noteq> None \<and> attempts (snd s') =
               attempts (snd s) @ [(RebaseCmd, False), (RebaseContinueCmd, True)])
         \<or> (res = None \<and> attempts (snd s') =
               attempts (snd s) @ [(RebaseCmd, False), (RebaseContinueCmd, False)])
         \<or> (res = None \<and> attempts (snd s') =
               attempts (snd s) @ [(RebaseCmd, False), (RebaseAbortCmd, True)])
         \<or> (res = None \<and> attempts (snd s') =
               attempts (snd s) @ [(RebaseCmd, False), (RebaseAbortCmd, False)]))"
  by (auto simp: rebaseStep_def returned_def remoteRef_not_option regenerateLockFiles_attempts
      split: prod.splits sum.splits if_splits
      dest!: runSecure_attempts applyStashIfNeeded_attempts getConflictedFiles_attempts
        autoResolveConflicts_attempts)

lemma mergeStep_attempts:
  "mergeStep E r t d dry s = (res, s') \<Longrightarrow>
     (if dry then res = None \<and> s' = s
      else (attempts (snd s') = attempts (snd s) @ [(MergeCmd, True)]
              \<and> res \<noteq> None \<and> success (the res) \<and> strategy (the res) = Merge)
         \<or> (attempts (snd s') = attempts (snd s) @ [(MergeCmd, False)]
              \<and> (res = None \<or> strategy (the res) = Merge)))"
  by (auto simp: mergeStep_def returned_def remoteRef_not_option regenerateLockFiles_attempts
      split: prod.splits sum.splits if_splits
      dest!: runSecure_attempts applyStashIfNeeded_attempts getConflictedFiles_attempts
        autoResolveConflicts_attempts)

lemma executePull_attempts:
  assumes "executePull E remote br dry s = (res, s')" and "attempts (snd s) = []"
  shows "attempts (snd s') \<in> cascadeShapes"
  using assms unfolding cascadeShapes_def
  by (auto simp: executePull_def Let_def split: prod.splits sum.splits option.splits if_splits
      dest!: getCurrentBranch_attempts stashIfNeeded_attempts fetchStep_attempts
        fastForwardStep_attempts rebaseStep_attempts mergeStep_attempts)

lemma shapes_sorted:
  assumes "A \<in> cascadeShapes"
  shows "sorted (map (rank \<circ> fst) A)"
  using assms unfolding cascadeShapes_def by auto

lemma shapes_order:
  assumes "A \<in> cascadeShapes"
  shows "(\<forall>A1 e A2. A = A1 @ e # A2 \<and> rank (fst e) = 1 \<longrightarrow>
            (\<exists>f\<in>set A1. fst f = FastForwardCmd) \<and> (\<forall>f\<in>set A2. rank (fst f) \<noteq> 0))
       \<and> (\<forall>A1 e A2. A = A1 @ e # A2 \<and> fst e = MergeCmd \<longrightarrow>
            (\<exists>f\<in>set A1. fst f = RebaseCmd) \<and> (\<forall>f\<in>set A2. rank (fst f) = 2))
       \<and> ((FastForwardCmd, True) \<in> set A \<longrightarrow> A = [(FastForwardCmd, True)])"
  using assms unfolding cascadeShapes_def
  by (auto simp: Cons_eq_append_conv)

subsection \<open>The engine in the example repositories\<close>

lemma sim_runSecure:
  "runSecure (simEnv fails u st) p args (w, T) =
     (if fails args then Inl ''command failed''
      else Inr (if args = [''diff'', ''--name-only'', ''--diff-filter=U''] then u else []),
      (w, T @ [(RunSecure p args, \<not> fails args)]))"
  by (simp add: runSecure_def perform_def simEnv_def returned_def)

lemma sim_run: "run (simEnv fails u st) c (w, T) = (Inr [], (w, T @ [(Run c, True)]))"
  by (simp add: run_def perform_def simEnv_def returned_def)

lemma sim_getCurrentBranch:
  "getCurrentBranch (simEnv fails u st) (w, T) =
     (Inr ''main'', (w, T @ [(GetCurrentBranch, True)]))"
  by (simp add: getCurrentBranch_def perform_def simEnv_def returned_def)

lemma sim_getGitStatusSummary:
  "getGitStatusSummary (simEnv fails u st) (w, T) =
     (Inr st, (w, T @ [(GetGitStatusSummary, True)]))"
  by (simp add: getGitStatusSummary_def perform_def simEnv_def returned_def)

lemma sim_dateNow:
  "dateNow (simEnv fails u st) (w, T) = (1700000000000, (w, T @ [(DateNow, True)]))"
  by (simp add: dateNow_def simEnv_def)

lemma sim_readFile:
  "readFile (simEnv fails u st) p (w, T) =
     (case map_of w p of
        None \<Rightarrow> (Inl (''ENOENT: '' @ p), (w, T @ [(ReadFile p, False)]))
      | Some text \<Rightarrow> (Inr text, (w, T @ [(ReadFile p, True)])))"
  by (simp add: readFile_def perform_def simEnv_def returned_def split: option.splits)

lemma sim_writeFile:
  "writeFile (simEnv fails u st) p text (w, T) =
     (Inr (), ((p, text) # w, T @ [(WriteFile p text, True)]))"
  by (simp add: writeFile_def perform_def simEnv_def returned_def)

lemma sim_semver: "semver_gt (simEnv fails u st) = semverGt"
  by (simp add: simEnv_def)

lemmas sim = sim_runSecure sim_run sim_getCurrentBranch sim_getGitStatusSummary sim_dateNow
  sim_readFile sim_writeFile sim_semver

lemma showNat_values:
  "showNat 0 = ''0''" "showNat (Suc 0) = ''1''" "showNat 1700000000000 = ''1700000000000''"
  by (simp_all add: showNat.simps digitChar_def)

lemmas engine_defs = executePull_def branchOr_def stashIfNeeded_def applyStashIfNeeded_def
  fetchStep_def fastForwardStep_def rebaseStep_def mergeStep_def remoteRef_def
  getConflictedFiles_def autoResolveConflicts_def resolveConflict_def acceptTheirs_def
  regenerateLockFiles_def pullFailed_def canAutoResolve_def pattern_defs startsWith_def
  endsWith_def trim_def isSpace_def LF_def dirtyTree_def cleanTree_def Let_def

lemmas text_defs = manifest_def resolvedManifest_def versionKey_def separator_def
  conflictStart_def conflictEnd_def LF_def DQ_def

lemmas match_defs = oursAt_def theirsMatch_def versionAt_def closeAt_def conflictBlockAt_def
  restOfLine_def startsWith_def isLineTerminator_def isSpace_def replaceVersion_def Let_def

lemmas semver_defs = parseVersion_def isNumeric_def numberOf_def

lemma paused_run:
  "executePull pausedEnv ''origin'' None False ([], []) =
     (Inr \<lparr>success = False, hadConflicts = True, autoResolved = [''package-lock.json''],
           manualRequired = [''src/app.ts''], stashApplied = False, strategy = Rebase,
           message = ''Rebase paused: 1 files need manual conflict resolution''\<rparr>,
      [],
      [(GetCurrentBranch, True), (GetGitStatusSummary, True), (DateNow, True),
       (RunSecure ''git''
          [''stash'', ''push'', ''-m'', ''kodrdriv-pull-auto-stash-1700000000000''], True),
       (RunSecure ''git'' [''fetch'', ''origin'', ''main''], True),
       (RunSecure ''git'' [''merge'', ''--ff-only'', ''origin/main''], False),
       (RunSecure ''git'' [''rebase'', ''origin/main''], False),
       (RunSecure ''git'' [''diff'', ''--name-only'', ''--diff-filter=U''], True),
       (RunSecure ''git'' [''diff'', ''--name-only'', ''--diff-filter=U''], True),
       (RunSecure ''git'' [''checkout'', ''--theirs'', ''package-lock.json''], True),
       (RunSecure ''git'' [''add'', ''package-lock.json''], True)])"
  unfolding pausedEnv_def
  by (simp add: engine_defs sim showNat_values)

lemma continue_fails_run:
  "executePull continueFailsEnv ''origin'' None False ([], []) =
     (Inr \<lparr>success = True, hadConflicts = False, autoResolved = [], manualRequired = [],
           stashApplied = False, strategy = Merge, message = ''Merge successful''\<rparr>,
      [],
      [(GetCurrentBranch, True), (GetGitStatusSummary, True),
       (RunSecure ''git'' [''fetch'', ''origin'', ''main''], True),
       (RunSecure ''git'' [''merge'', ''--ff-only'', ''origin/main''], False),
       (RunSecure ''git'' [''rebase'', ''origin/main''], False),
       (RunSecure ''git'' [''diff'', ''--name-only'', ''--diff-filter=U''], True),
       (RunSecure ''git'' [''diff'', ''--name-only'', ''--diff-filter=U''], True),
       (RunSecure ''git'' [''checkout'', ''--theirs'', ''package-lock.json''], True),
       (RunSecure ''git'' [''add'', ''package-lock.json''], True),
       (RunSecure ''git'' [''rebase'', ''--continue''], False),
       (RunSecure ''git'' [''merge'', ''origin/main''], True)])"
  unfolding continueFailsEnv_def
  by (simp add: engine_defs sim showNat_values)

lemma fetch_fails_run:
  "executePull fetchFailsEnv ''origin'' None False ([], []) =
     (Inr \<lparr>success = False, hadConflicts = False, autoResolved = [], manualRequired = [],
           stashApplied = True, strategy = Failed,
           message = ''Fetch failed: command failed''\<rparr>,
      [],
      [(GetCurrentBranch, True), (GetGitStatusSummary, True), (DateNow, True),
       (RunSecure ''git''
          [''stash'', ''push'', ''-m'', ''kodrdriv-pull-auto-stash-1700000000000''], True),
       (RunSecure ''git'' [''fetch'', ''origin'', ''main''], False),
       (RunSecure ''git'' [''stash'', ''pop''], False)])"
  unfolding fetchFailsEnv_def
  by (simp add: engine_defs sim showNat_values)

lemma first_resolution:
  "tryResolvePackageJsonConflict (simEnv fails u st) ''package.json''
      ([(''package.json'', manifest ''1.2.0'' ''1.3.0'')], T) =
     ((True, None),
      ([(''package.json'', resolvedManifest ''1.3.0''),
        (''package.json'', manifest ''1.2.0'' ''1.3.0'')],
       T @ [(ReadFile ''package.json'', True),
            (WriteFile ''package.json'' (resolvedManifest ''1.3.0''), True)]))"
  by (simp add: tryResolvePackageJsonConflict_def higherVersion_def semverGt_def sim
      text_defs match_defs semver_defs)

lemma second_resolution:
  "tryResolvePackageJsonConflict (simEnv fails u st) ''package.json''
      ([(''package.json'', resolvedManifest ''1.3.0''),
        (''package.json'', manifest ''1.2.0'' ''1.3.0'')], T) =
     ((False, Some ''Not a conflict file''),
      ([(''package.json'', resolvedManifest ''1.3.0''),
        (''package.json'', manifest ''1.2.0'' ''1.3.0'')],
       T @ [(ReadFile ''package.json'', True)]))"
  by (simp add: tryResolvePackageJsonConflict_def sim resolvedManifest_def versionKey_def
      LF_def DQ_def startsWith_def)

text \<open>The manifest is resolved during the rebase; when the merge stops on it again, the
  text on disk has no conflict marker left and the file is left to the user.\<close>

lemma merge_paused_run:
  "executePull mergePausedEnv ''origin'' None False
      ([(''package.json'', manifest ''1.2.0'' ''1.3.0'')], []) =
     (Inr \<lparr>success = False, hadConflicts = True, autoResolved = [],
           manualRequired = [''package.json''], stashApplied = False, strategy = Merge,
           message = ''Merge paused: 1 files need manual conflict resolution''\<rparr>,
      [(''package.json'', resolvedManifest ''1.3.0''),
       (''package.json'', manifest ''1.2.0'' ''1.3.0'')],
      [(GetCurrentBranch, True), (GetGitStatusSummary, True),
       (RunSecure ''git'' [''fetch'', ''origin'', ''main''], True),
       (RunSecure ''git'' [''merge'', ''--ff-only'', ''origin/main''], False),
       (RunSecure ''git'' [''rebase'', ''origin/main''], False),
       (RunSecure ''git'' [''diff'', ''--name-only'', ''--diff-filter=U''], True),
       (RunSecure ''git'' [''diff'', ''--name-only'', ''--diff-filter=U''], True),
       (ReadFile ''package.json'', True),
       (WriteFile ''package.json'' (resolvedManifest ''1.3.0''), True),
       (RunSecure ''git'' [''add'', ''package.json''], True),
       (RunSecure ''git'' [''rebase'', ''--continue''], False),
       (RunSecure ''git'' [''merge'', ''origin/main''], False),
       (RunSecure ''git'' [''diff'', ''--name-only'', ''--diff-filter=U''], True),
       (RunSecure ''git'' [''diff'', ''--name-only'', ''--diff-filter=U''], True),
       (ReadFile ''package.json'', True)])"
  unfolding mergePausedEnv_def
  by (simp add: engine_defs sim_runSecure sim_getCurrentBranch sim_getGitStatusSummary
      showNat_values first_resolution second_resolution)

subsection \<open>Terminal results\<close>

lemma fetchStep_manual: "fetchStep E r t d dry s = (Some x, s') \<Longrightarrow> manualRequired x = []"
  by (auto simp: fetchStep_def Let_def split: prod.splits sum.splits if_splits)

lemma fastForwardStep_manual:
  "fastForwardStep E r t d dry s = (Some x, s') \<Longrightarrow> manualRequired x = []"
  by (auto simp: fastForwardStep_def split: prod.splits sum.splits if_splits)

lemma rebaseStep_manual:
  "rebaseStep E r t d dry s = (Some x, s') \<Longrightarrow> manualRequired x \<noteq> [] \<Longrightarrow>
     \<not> success x \<and> \<not> stashApplied x"
  by (auto simp: rebaseStep_def split: prod.splits sum.splits if_splits)

lemma mergeStep_manual:
  "mergeStep E r t d dry s = (Some x, s') \<Longrightarrow> manualRequired x \<noteq> [] \<Longrightarrow>
     \<not> success x \<and> \<not> stashApplied x"
  by (auto simp: mergeStep_def split: prod.splits sum.splits if_splits)

text \<open>
  Claim C1. Whatever the collaborators do, a result that \<^verbatim>\<open>executePull\<close> returns with
  a non-empty \<^verbatim>\<open>manualRequired\<close> has \<^verbatim>\<open>success = false\<close> and \<^verbatim>\<open>stashApplied = false\<close>: only
  the two pauses, of the rebase and of the merge, fill \<^verbatim>\<open>manualRequired\<close>.
\<close>

theorem manual_required_invariant:
  assumes "executePull E remote br dry s = (Inr x, s')" and "manualRequired x \<noteq> []"
  shows "\<not> success x \<and> \<not> stashApplied x"
  using assms
  by (auto simp: executePull_def Let_def pullFailed_def
      split: prod.splits sum.splits option.splits
      dest: fetchStep_manual fastForwardStep_manual rebaseStep_manual mergeStep_manual)

theorem manual_required_invariant_witness:
  "(\<exists>x s'. executePull pausedEnv ''origin'' None False ([], []) = (Inr x, s')
      \<and> manualRequired x = [''src/app.ts''] \<and> strategy x = Rebase
      \<and> \<not> success x \<and> \<not> stashApplied x)
   \<and> (\<exists>x s'. executePull mergePausedEnv ''origin'' None False
                  ([(''package.json'', manifest ''1.2.0'' ''1.3.0'')], []) = (Inr x, s')
      \<and> manualRequired x = [''package.json''] \<and> strategy x = Merge
      \<and> \<not> success x \<and> \<not> stashApplied x)"
proof -
  obtain x s' where run: "executePull pausedEnv ''origin'' None False ([], []) = (Inr x, s')"
    and m: "manualRequired x = [''src/app.ts'']" and st: "strategy x = Rebase"
    using paused_run by simp
  from m have "manualRequired x \<noteq> []" by simp
  from manual_required_invariant [OF run this] run m st
  have rebase: "\<exists>x s'. executePull pausedEnv ''origin'' None False ([], []) = (Inr x, s')
      \<and> manualRequired x = [''src/app.ts''] \<and> strategy x = Rebase
      \<and> \<not> success x \<and> \<not> stashApplied x"
    by simp
  obtain y t' where run': "executePull mergePausedEnv ''origin'' None False
        ([(''package.json'', manifest ''1.2.0'' ''1.3.0'')], []) = (Inr y, t')"
    and m': "manualRequired y = [''package.json'']" and st': "strategy y = Merge"
    using merge_paused_run by simp
  from m' have "manualRequired y \<noteq> []" by simp
  from manual_required_invariant [OF run' this] run' m' st'
  have merge: "\<exists>x s'. executePull mergePausedEnv ''origin'' None False
        ([(''package.json'', manifest ''1.2.0'' ''1.3.0'')], []) = (Inr x, s')
      \<and> manualRequired x = [''package.json''] \<and> strategy x = Merge
      \<and> \<not> success x \<and> \<not> stashApplied x"
    by simp
  from rebase merge show ?thesis
    by (rule conjI)
qed

text \<open>
  Claim C9. In a dry run \<^verbatim>\<open>executePull\<close> skips every strategy attempt: whatever the
  collaborators do, its only calls are the two queries of the status inspector (no
  stash, fetch, fast-forward, rebase or merge command). Once the inspector has answered,
  it returns the result of the last \<^verbatim>\<open>return\<close>: \<^verbatim>\<open>success = false\<close>,
  \<^verbatim>\<open>strategy = 'failed'\<close>, \<^verbatim>\<open>hadConflicts = false\<close> and the message
  \<^verbatim>\<open>Pull failed - unable to merge or rebase\<close>, for every remote, branch and repository.
\<close>

theorem dry_run_reports_failure:
  "(\<forall>c ok. (c, ok) \<in> set (snd (snd (executePull E remote br True (w, [])))) \<longrightarrow>
       c = GetCurrentBranch \<or> c = GetGitStatusSummary)
   \<and> (getCurrentBranch_env E w = (Inr cb, w1)
        \<and> getGitStatusSummary_env E w1 = (Inr status, w2) \<longrightarrow>
      executePull E remote br True (w, []) =
        (Inr \<lparr>success = False, hadConflicts = False, autoResolved = [], manualRequired = [],
              stashApplied = False, strategy = Failed,
              message = ''Pull failed - unable to merge or rebase''\<rparr>,
         (w2, [(GetCurrentBranch, True), (GetGitStatusSummary, True)])))"
proof -
  have calls: "c = GetCurrentBranch \<or> c = GetGitStatusSummary"
    if "(c, ok) \<in> set (snd (snd (executePull E remote br True (w, []))))" for c ok
    using that
    by (auto simp: executePull_def Let_def getCurrentBranch_def perform_def
        stashIfNeeded_def getGitStatusSummary_def fetchStep_def fastForwardStep_def
        rebaseStep_def mergeStep_def split: prod.splits sum.splits if_splits)
  have result: "executePull E remote br True (w, []) =
        (Inr \<lparr>success = False, hadConflicts = False, autoResolved = [], manualRequired = [],
              stashApplied = False, strategy = Failed,
              message = ''Pull failed - unable to merge or rebase''\<rparr>,
         (w2, [(GetCurrentBranch, True), (GetGitStatusSummary, True)]))"
    if "getCurrentBranch_env E w = (Inr cb, w1)"
      and "getGitStatusSummary_env E w1 = (Inr status, w2)"
    using that
    by (simp add: executePull_def Let_def getCurrentBranch_def perform_def returned_def
        stashIfNeeded_def getGitStatusSummary_def fetchStep_def fastForwardStep_def
        rebaseStep_def mergeStep_def pullFailed_def)
  from calls result show ?thesis
    by blast
qed

theorem dry_run_reports_failure_witness:
  "executePull (simEnv (\<lambda>a. False) [] dirtyTree) ''origin'' (Some ''main'') True ([], []) =
     (Inr \<lparr>success = False, hadConflicts = False, autoResolved = [], manualRequired = [],
           stashApplied = False, strategy = Failed,
           message = ''Pull failed - unable to merge or rebase''\<rparr>,
      ([], [(GetCurrentBranch, True), (GetGitStatusSummary, True)]))"
proof -
  have a: "getCurrentBranch_env (simEnv (\<lambda>a. False) [] dirtyTree) [] = (Inr ''main'', [])"
    by (simp add: simEnv_def)
  have b: "getGitStatusSummary_env (simEnv (\<lambda>a. False) [] dirtyTree) [] = (Inr dirtyTree, [])"
    by (simp add: simEnv_def)
  show ?thesis
    by (rule dry_run_reports_failure [THEN conjunct2, rule_format, OF conjI [OF a b]])
qed

text \<open>
  Claim C2 does not hold as it is stated. The claim says that the engine returns a result for every behaviour of
  the command runner, commands that throw included, and that nothing is thrown past
  \<^verbatim>\<open>execute\<close>. \<^verbatim>\<open>stashIfNeeded\<close> runs \<^verbatim>\<open>git stash push\<close> outside every \<^verbatim>\<open>try\<close> block, and the
  \<^verbatim>\<open>catch\<close> clause of \<^verbatim>\<open>execute\<close> throws the error again: with local changes and a
  \<^verbatim>\<open>stash push\<close> that throws, \<^verbatim>\<open>execute\<close> throws.
\<close>

theorem stash_failure_is_thrown:
  "execute stashFailsEnv asciiGlyphs \<lparr>dryRun = None, pull = None\<rparr> ([], []) =
     (Inl ''command failed'',
      [],
      [(GetCurrentBranch, True), (GetGitStatusSummary, True), (DateNow, True),
       (RunSecure ''git''
          [''stash'', ''push'', ''-m'', ''kodrdriv-pull-auto-stash-1700000000000''], False)])"
  unfolding stashFailsEnv_def
  by (simp add: execute_def executeInternal_def engine_defs sim showNat_values)

text \<open>
  Claim C2, as amended: \<^verbatim>\<open>executePull\<close> returns a result if and only if \<^verbatim>\<open>getCurrentBranch\<close> and
  \<^verbatim>\<open>stashIfNeeded\<close> (the status query and, outside a dry run, \<^verbatim>\<open>git stash push\<close>) return;
  what fetch, merge, rebase, diff, checkout, add, commit, \<^verbatim>\<open>stash pop\<close> and
  \<^verbatim>\<open>npm install\<close> do, throwing included, never keeps it from returning. \<^verbatim>\<open>execute\<close>
  returns its report under the same condition and throws otherwise.
\<close>

theorem pull_returns_iff_setup_returns:
  "((\<exists>x s'. executePull E remote br dry s = (Inr x, s')) \<longleftrightarrow>
      (\<exists>cb s1 d s2. getCurrentBranch E s = (Inr cb, s1)
         \<and> stashIfNeeded E dry s1 = (Inr d, s2)))
   \<and> ((\<exists>out s'. execute E G runConfig s = (Inr out, s')) \<longleftrightarrow>
      (\<exists>cb s1 d s2. getCurrentBranch E s = (Inr cb, s1)
         \<and> stashIfNeeded E (case dryRun runConfig of None \<Rightarrow> False | Some b \<Rightarrow> b) s1
             = (Inr d, s2)))"
proof -
  have pull: "(\<exists>x s'. executePull E r b d s = (Inr x, s')) \<longleftrightarrow>
      (\<exists>cb s1 d' s2. getCurrentBranch E s = (Inr cb, s1)
         \<and> stashIfNeeded E d s1 = (Inr d', s2))" for r b d
    by (auto simp: executePull_def Let_def split: prod.splits sum.splits option.splits)
  have "(\<exists>out s'. execute E G runConfig s = (Inr out, s')) \<longleftrightarrow>
      (\<exists>x s'. executePull E
          (case pull_remote (case pull runConfig of
                               None \<Rightarrow> \<lparr>pull_remote = None, pull_branch = None\<rparr>
                             | Some c \<Rightarrow> c) of
             None \<Rightarrow> ''origin'' | Some r \<Rightarrow> if r = [] then ''origin'' else r)
          (pull_branch (case pull runConfig of
                          None \<Rightarrow> \<lparr>pull_remote = None, pull_branch = None\<rparr>
                        | Some c \<Rightarrow> c))
          (case dryRun runConfig of None \<Rightarrow> False | Some b \<Rightarrow> b) s = (Inr x, s'))"
    by (auto simp: execute_def executeInternal_def Let_def split: prod.splits sum.splits)
  with pull show ?thesis
    by simp
qed

theorem pull_returns_iff_setup_returns_witness:
  "(\<exists>x s'. executePull continueFailsEnv ''origin'' None False ([], []) = (Inr x, s'))
   \<and> (\<exists>cb s1 d s2. getCurrentBranch continueFailsEnv ([], []) = (Inr cb, s1)
         \<and> stashIfNeeded continueFailsEnv False s1 = (Inr d, s2))"
proof -
  have ex: "\<exists>x s'. executePull continueFailsEnv ''origin'' None False ([], []) = (Inr x, s')"
    using continue_fails_run by simp
  note th = pull_returns_iff_setup_returns
      [of continueFailsEnv "''origin''" None False "([], [])" asciiGlyphs
          "\<lparr>dryRun = None, pull = None\<rparr>", THEN conjunct1, THEN iffD1, OF ex]
  show ?thesis
    by (rule conjI [OF ex th])
qed

text \<open>
  Claim C3. The claim says that after a failed \<^verbatim>\<open>rebase --continue\<close> the engine goes to
  the final failure, \<^verbatim>\<open>strategy = 'failed'\<close>, without trying any further strategy, the plain
  merge in particular. The code does otherwise. The \<^verbatim>\<open>catch\<close> clause of the continuation
  (lines 415-417) only logs a warning, so control leaves the rebase block and enters the
  merge block with the rebase still unfinished, whereas the sibling branch of a rebase
  that failed without conflicts (lines 437-443) runs \<^verbatim>\<open>rebase --abort\<close> before it goes on.
  In the repository whose only conflict is the lock file and whose continuation fails,
  the strategy commands of the run are the fast-forward, the rebase, the failed
  continuation and then the merge, with no abort among them; the merge returns and the
  result is \<^verbatim>\<open>strategy = 'merge'\<close>, \<^verbatim>\<open>success = true\<close>.
\<close>

theorem continue_failure_then_merge:
  "fst (executePull continueFailsEnv ''origin'' None False ([], [])) =
     Inr \<lparr>success = True, hadConflicts = False, autoResolved = [], manualRequired = [],
          stashApplied = False, strategy = Merge, message = ''Merge successful''\<rparr>
   \<and> attempts (snd (snd (executePull continueFailsEnv ''origin'' None False ([], [])))) =
       [(FastForwardCmd, False), (RebaseCmd, False), (RebaseContinueCmd, False),
        (MergeCmd, True)]"
  by (simp add: continue_fails_run)

subsection \<open>Order of the strategies\<close>

lemma fast_forward_run:
  "executePull (simEnv (\<lambda>a. False) [] cleanTree) ''origin'' None False ([], []) =
     (Inr \<lparr>success = True, hadConflicts = False, autoResolved = [], manualRequired = [],
           stashApplied = False, strategy = FastForward,
           message = ''Fast-forward merge successful''\<rparr>,
      [],
      [(GetCurrentBranch, True), (GetGitStatusSummary, True),
       (RunSecure ''git'' [''fetch'', ''origin'', ''main''], True),
       (RunSecure ''git'' [''merge'', ''--ff-only'', ''origin/main''], True)])"
  by (simp add: engine_defs sim showNat_values)

text \<open>
  Claim C7. Read in the order of the run, the strategy commands of an invocation
  never step back in the cascade (fast-forward, then rebase, then merge). A command of
  the rebase has a fast-forward attempt before it and none behind it; a merge has a
  rebase attempt before it and neither a fast-forward nor a rebase command behind it.
  When the fast-forward attempt returns, it is the only strategy command of the run:
  no rebase and no merge command is issued.
\<close>

theorem cascade_order:
  assumes "executePull E remote br dry (w, []) = (res, s')" and "A = attempts (snd s')"
  shows "sorted (map (rank \<circ> fst) A)
       \<and> (\<forall>A1 e A2. A = A1 @ e # A2 \<and> rank (fst e) = 1 \<longrightarrow>
            (\<exists>f\<in>set A1. fst f = FastForwardCmd) \<and> (\<forall>f\<in>set A2. rank (fst f) \<noteq> 0))
       \<and> (\<forall>A1 e A2. A = A1 @ e # A2 \<and> fst e = MergeCmd \<longrightarrow>
            (\<exists>f\<in>set A1. fst f = RebaseCmd) \<and> (\<forall>f\<in>set A2. rank (fst f) = 2))
       \<and> ((FastForwardCmd, True) \<in> set A \<longrightarrow> A = [(FastForwardCmd, True)])"
proof -
  have "A \<in> cascadeShapes"
    using executePull_attempts [OF assms(1)] assms(2) by simp
  from shapes_sorted [OF this] shapes_order [OF this] show ?thesis
    by (rule conjI)
qed

theorem cascade_order_witness:
  "attempts (snd (snd (executePull (simEnv (\<lambda>a. False) [] cleanTree) ''origin'' None False
      ([], [])))) = [(FastForwardCmd, True)]
   \<and> sorted (map (rank \<circ> fst)
        (attempts (snd (snd (executePull continueFailsEnv ''origin'' None False ([], []))))))"
proof -
  let ?r1 = "executePull (simEnv (\<lambda>a. False) [] cleanTree) ''origin'' None False ([], [])"
  let ?r2 = "executePull continueFailsEnv ''origin'' None False ([], [])"
  have m: "(FastForwardCmd, True) \<in> set (attempts (snd (snd ?r1)))"
    by (simp add: fast_forward_run)
  have 1: "attempts (snd (snd ?r1)) = [(FastForwardCmd, True)]"
    using cascade_order [of _ _ _ _ _ "fst ?r1" "snd ?r1" "attempts (snd (snd ?r1))"] m
    by simp
  have 2: "sorted (map (rank \<circ> fst) (attempts (snd (snd ?r2))))"
    using cascade_order [of _ _ _ _ _ "fst ?r2" "snd ?r2" "attempts (snd (snd ?r2))"]
    by simp
  from 1 2 show ?thesis
    by (rule conjI)
qed

subsection \<open>The stash after a failed fetch\<close>

lemma fetchStep_failure:
  assumes "fst (runSecure E ''git'' [''fetch'', r, t] s) = Inl e"
  shows "fst (fetchStep E r t d False s) =
     Some \<lparr>success = False, hadConflicts = False, autoResolved = [], manualRequired = [],
           stashApplied = d, strategy = Failed, message = ''Fetch failed: '' @ e\<rparr>"
  using assms by (auto simp: fetchStep_def Let_def split: prod.splits sum.splits)

text \<open>
  Claim C10. When the fetch throws, the result carries \<^verbatim>\<open>stashApplied = didStash\<close>:
  the value that \<^verbatim>\<open>applyStashIfNeeded\<close> returns is not read. In the repository with local
  changes whose fetch and whose \<^verbatim>\<open>stash pop\<close> both throw, \<^verbatim>\<open>applyStashIfNeeded\<close> returns
  false, the stash stays where it is, and the result says \<^verbatim>\<open>stashApplied = true\<close>.
\<close>

theorem fetch_failure_reports_didStash:
  "(getCurrentBranch E s = (Inr cb, s1) \<and> stashIfNeeded E False s1 = (Inr didStash, s2)
      \<and> fst (runSecure E ''git'' [''fetch'', remote, branchOr br cb] s2) = Inl e \<longrightarrow>
    fst (executePull E remote br False s) =
      Inr \<lparr>success = False, hadConflicts = False, autoResolved = [], manualRequired = [],
           stashApplied = didStash, strategy = Failed, message = ''Fetch failed: '' @ e\<rparr>)
   \<and> (\<exists>x T. executePull fetchFailsEnv ''origin'' None False ([], []) = (Inr x, ([], T))
         \<and> stashApplied x
         \<and> (RunSecure ''git'' [''stash'', ''pop''], False) \<in> set T
         \<and> (\<forall>w T'. fst (applyStashIfNeeded fetchFailsEnv True False (w, T')) = False))"
proof -
  have general: "fst (executePull E remote br False s) =
      Inr \<lparr>success = False, hadConflicts = False, autoResolved = [], manualRequired = [],
           stashApplied = didStash, strategy = Failed, message = ''Fetch failed: '' @ e\<rparr>"
    if a: "getCurrentBranch E s = (Inr cb, s1)"
      and b: "stashIfNeeded E False s1 = (Inr didStash, s2)"
      and c: "fst (runSecure E ''git'' [''fetch'', remote, branchOr br cb] s2) = Inl e"
    using a b fetchStep_failure [OF c, of didStash]
    by (auto simp: executePull_def Let_def split: prod.splits sum.splits option.splits)
  have pop: "fst (applyStashIfNeeded fetchFailsEnv True False (w, T')) = False" for w T'
    by (simp add: fetchFailsEnv_def applyStashIfNeeded_def sim)
  from general pop show ?thesis
    using fetch_fails_run by simp
qed

theorem fetch_failure_reports_didStash_witness:
  "fst (executePull fetchFailsEnv ''origin'' None False ([], [])) =
     Inr \<lparr>success = False, hadConflicts = False, autoResolved = [], manualRequired = [],
          stashApplied = True, strategy = Failed,
          message = ''Fetch failed: command failed''\<rparr>"
proof -
  have a: "getCurrentBranch fetchFailsEnv ([], []) =
      (Inr ''main'', ([], [(GetCurrentBranch, True)]))"
    by (simp add: fetchFailsEnv_def sim)
  have b: "stashIfNeeded fetchFailsEnv False ([], [(GetCurrentBranch, True)]) =
      (Inr True, ([], [(GetCurrentBranch, True), (GetGitStatusSummary, True), (DateNow, True),
         (RunSecure ''git''
            [''stash'', ''push'', ''-m'', ''kodrdriv-pull-auto-stash-1700000000000''], True)]))"
    by (simp add: fetchFailsEnv_def stashIfNeeded_def dirtyTree_def sim showNat_values)
  have c: "fst (runSecure fetchFailsEnv ''git'' [''fetch'', ''origin'', branchOr None ''main'']
      ([], [(GetCurrentBranch, True), (GetGitStatusSummary, True), (DateNow, True),
         (RunSecure ''git''
            [''stash'', ''push'', ''-m'', ''kodrdriv-pull-auto-stash-1700000000000''], True)]))
      = Inl ''command failed''"
    by (simp add: fetchFailsEnv_def branchOr_def sim)
  from fetch_failure_reports_didStash
    [of fetchFailsEnv "([], [])" "''main''" _ True _ "''origin''" None "''command failed''",
      THEN conjunct1, rule_format, OF conjI [OF a conjI [OF b c]]]
  show ?thesis
    by simp
qed

section \<open>Properties of the version resolution\<close>

text \<open>
  Claim C5. When both regions hold a version field and both versions, cut at the
  prerelease, are versions in the sense of the comparison, the version kept is ours if
  ours, cut at the prerelease, is strictly the higher, and theirs otherwise, in
  particular when the two are equal after the cut; the text written back is the text
  without its conflict blocks with that version in its version field. With \<^verbatim>\<open>1.2.0\<close>
  against \<^verbatim>\<open>1.3.0\<close> the file gets \<^verbatim>\<open>1.3.0\<close>; with \<^verbatim>\<open>1.3.0-beta.1\<close> against \<^verbatim>\<open>1.3.0\<close> the two
  are equal after the cut and the file gets theirs, \<^verbatim>\<open>1.3.0\<close>.
\<close>

theorem version_bump_selects_higher:
  assumes "semver_gt E = semverGt"
      and "readFile E filepath s = (Inr content, s1)"
      and "includesStr content ''<<<<<<<''" and "includesStr content ''>>>>>>>''"
      and "oursMatch content = Some oursPart"
      and "versionMatch oursPart = Some (pre1, m1, oursVersion, post1)"
      and "theirsMatch content = Some theirsPart"
      and "versionMatch theirsPart = Some (pre2, m2, theirsVersion, post2)"
      and "parseVersion (stripPrerelease oursVersion) = Some a"
      and "parseVersion (stripPrerelease theirsVersion) = Some b"
  shows "higherVersion E oursVersion theirsVersion =
           Inr (if versionLess b a then oursVersion else theirsVersion)
       \<and> tryResolvePackageJsonConflict E filepath s =
           (case writeFile E filepath
                   (replaceVersion (removeConflictBlocks content)
                      (if versionLess b a then oursVersion else theirsVersion)) s1 of
              (Inl e, s2) \<Rightarrow> ((False, Some e), s2)
            | (Inr u, s2) \<Rightarrow> ((True, None), s2))"
  using assms
  by (simp add: tryResolvePackageJsonConflict_def higherVersion_def semverGt_def)

lemma version_line:
  "versionMatch (''  '' @ versionKey @ '' '' @ [DQ] @ ''1.2.0'' @ [DQ] @ '','' @ [LF]) =
     Some (''  '', versionKey @ '' '' @ [DQ] @ ''1.2.0'' @ [DQ], ''1.2.0'', '','' @ [LF])"
  "versionMatch (''  '' @ versionKey @ '' '' @ [DQ] @ ''1.3.0'' @ [DQ] @ '','' @ [LF]) =
     Some (''  '', versionKey @ '' '' @ [DQ] @ ''1.3.0'' @ [DQ], ''1.3.0'', '','' @ [LF])"
  "versionMatch (''  '' @ versionKey @ '' '' @ [DQ] @ ''1.3.0-beta.1'' @ [DQ] @ '','' @ [LF]) =
     Some (''  '', versionKey @ '' '' @ [DQ] @ ''1.3.0-beta.1'' @ [DQ], ''1.3.0-beta.1'',
           '','' @ [LF])"
  by (simp_all add: text_defs match_defs)

theorem version_bump_selects_higher_witness:
  "tryResolvePackageJsonConflict (simEnv (\<lambda>a. False) [] cleanTree) ''package.json''
      ([(''package.json'', manifest ''1.2.0'' ''1.3.0'')], []) =
     ((True, None),
      ([(''package.json'', resolvedManifest ''1.3.0''),
        (''package.json'', manifest ''1.2.0'' ''1.3.0'')],
       [(ReadFile ''package.json'', True),
        (WriteFile ''package.json'' (resolvedManifest ''1.3.0''), True)]))
   \<and> tryResolvePackageJsonConflict (simEnv (\<lambda>a. False) [] cleanTree) ''package.json''
      ([(''package.json'', manifest ''1.3.0-beta.1'' ''1.3.0'')], []) =
     ((True, None),
      ([(''package.json'', resolvedManifest ''1.3.0''),
        (''package.json'', manifest ''1.3.0-beta.1'' ''1.3.0'')],
       [(ReadFile ''package.json'', True),
        (WriteFile ''package.json'' (resolvedManifest ''1.3.0''), True)]))"
proof -
  let ?E = "simEnv (\<lambda>a. False) [] cleanTree"
  have gt: "semver_gt ?E = semverGt"
    by (rule sim_semver)
  have rd: "readFile ?E ''package.json'' ([(''package.json'', c)], []) =
      (Inr c, ([(''package.json'', c)], [(ReadFile ''package.json'', True)]))" for c
    by (simp add: sim)
  have mk: "includesStr (manifest ''1.2.0'' ''1.3.0'') ''<<<<<<<''"
    "includesStr (manifest ''1.2.0'' ''1.3.0'') ''>>>>>>>''"
    "includesStr (manifest ''1.3.0-beta.1'' ''1.3.0'') ''<<<<<<<''"
    "includesStr (manifest ''1.3.0-beta.1'' ''1.3.0'') ''>>>>>>>''"
    by (simp_all add: text_defs startsWith_def)
  have ours: "oursMatch (manifest ''1.2.0'' ''1.3.0'') =
      Some (''  '' @ versionKey @ '' '' @ [DQ] @ ''1.2.0'' @ [DQ] @ '','' @ [LF])"
    "oursMatch (manifest ''1.3.0-beta.1'' ''1.3.0'') =
      Some (''  '' @ versionKey @ '' '' @ [DQ] @ ''1.3.0-beta.1'' @ [DQ] @ '','' @ [LF])"
    by (simp_all add: text_defs match_defs)
  have theirs: "theirsMatch (manifest ''1.2.0'' ''1.3.0'') =
      Some (''  '' @ versionKey @ '' '' @ [DQ] @ ''1.3.0'' @ [DQ] @ '','' @ [LF])"
    "theirsMatch (manifest ''1.3.0-beta.1'' ''1.3.0'') =
      Some (''  '' @ versionKey @ '' '' @ [DQ] @ ''1.3.0'' @ [DQ] @ '','' @ [LF])"
    by (simp_all add: text_defs match_defs)
  have pv: "parseVersion (stripPrerelease ''1.2.0'') = Some (1, 2, 0)"
    "parseVersion (stripPrerelease ''1.3.0'') = Some (1, 3, 0)"
    "parseVersion (stripPrerelease ''1.3.0-beta.1'') = Some (1, 3, 0)"
    by (simp_all add: semver_defs isLineTerminator_def)
  have out: "replaceVersion (removeConflictBlocks (manifest ''1.2.0'' ''1.3.0'')) ''1.3.0'' =
      resolvedManifest ''1.3.0''"
    "replaceVersion (removeConflictBlocks (manifest ''1.3.0-beta.1'' ''1.3.0'')) ''1.3.0'' =
      resolvedManifest ''1.3.0''"
    by (simp_all add: text_defs match_defs)
  note one = version_bump_selects_higher
    [OF gt rd mk(1) mk(2) ours(1) version_line(1) theirs(1) version_line(2) pv(1) pv(2),
      THEN conjunct2]
  note two = version_bump_selects_higher
    [OF gt rd mk(3) mk(4) ours(2) version_line(3) theirs(2) version_line(2) pv(3) pv(2),
      THEN conjunct2]
  show ?thesis
    using one two by (simp add: out sim)
qed

text \<open>
  Claim C6. When the text read from the file lacks a conflict marker, or one of the
  two regions cannot be cut out, or one of them has no version field, the resolution
  returns \<^verbatim>\<open>resolved = false\<close> with the message of that step, and the state it returns is
  the state right after \<^verbatim>\<open>readFile\<close>: \<^verbatim>\<open>writeFile\<close> is not called and the file is as it
  was.
\<close>

theorem version_bump_atomic_on_failure:
  assumes "readFile E filepath s = (Inr content, s1)"
  shows "(\<not> includesStr content ''<<<<<<<'' \<or> \<not> includesStr content ''>>>>>>>'' \<longrightarrow>
            tryResolvePackageJsonConflict E filepath s = ((False, Some ''Not a conflict file''), s1))
       \<and> (includesStr content ''<<<<<<<'' \<and> includesStr content ''>>>>>>>''
            \<and> (oursMatch content = None \<or> theirsMatch content = None) \<longrightarrow>
            tryResolvePackageJsonConflict E filepath s =
              ((False, Some ''Cannot parse conflict markers''), s1))
       \<and> (includesStr content ''<<<<<<<'' \<and> includesStr content ''>>>>>>>''
            \<and> oursMatch content = Some oursPart \<and> theirsMatch content = Some theirsPart
            \<and> (versionMatch oursPart = None \<or> versionMatch theirsPart = None) \<longrightarrow>
            tryResolvePackageJsonConflict E filepath s =
              ((False, Some ''Complex conflict - not just version''), s1))"
  using assms
  by (auto simp: tryResolvePackageJsonConflict_def split: option.splits)

theorem version_bump_atomic_on_failure_witness:
  "tryResolvePackageJsonConflict (simEnv (\<lambda>a. False) [] cleanTree) ''package.json''
      ([(''package.json'', ''{}'')], []) =
     ((False, Some ''Not a conflict file''),
      ([(''package.json'', ''{}'')], [(ReadFile ''package.json'', True)]))
   \<and> tryResolvePackageJsonConflict (simEnv (\<lambda>a. False) [] cleanTree) ''package.json''
      ([(''package.json'', ''<<<<<<< HEAD'' @ [LF] @ ''a'' @ [LF] @ ''>>>>>>> b'' @ [LF])], []) =
     ((False, Some ''Cannot parse conflict markers''),
      ([(''package.json'', ''<<<<<<< HEAD'' @ [LF] @ ''a'' @ [LF] @ ''>>>>>>> b'' @ [LF])],
       [(ReadFile ''package.json'', True)]))
   \<and> tryResolvePackageJsonConflict (simEnv (\<lambda>a. False) [] cleanTree) ''package.json''
      ([(''package.json'',
         ''<<<<<<< HEAD'' @ [LF] @ ''a'' @ [LF] @ separator @ ''b'' @ [LF] @ ''>>>>>>> x''
           @ [LF])], []) =
     ((False, Some ''Complex conflict - not just version''),
      ([(''package.json'',
         ''<<<<<<< HEAD'' @ [LF] @ ''a'' @ [LF] @ separator @ ''b'' @ [LF] @ ''>>>>>>> x''
           @ [LF])],
       [(ReadFile ''package.json'', True)]))"
proof -
  let ?E = "simEnv (\<lambda>a. False) [] cleanTree"
  let ?c2 = "''<<<<<<< HEAD'' @ [LF] @ ''a'' @ [LF] @ ''>>>>>>> b'' @ [LF]"
  let ?c3 = "''<<<<<<< HEAD'' @ [LF] @ ''a'' @ [LF] @ separator @ ''b'' @ [LF] @ ''>>>>>>> x''
           @ [LF]"
  have rd: "readFile ?E ''package.json'' ([(''package.json'', c)], []) =
      (Inr c, ([(''package.json'', c)], [(ReadFile ''package.json'', True)]))" for c
    by (simp add: sim)
  have 1: "\<not> includesStr ''{}'' ''<<<<<<<'' \<or> \<not> includesStr ''{}'' ''>>>>>>>''"
    by (simp add: startsWith_def)
  have 2: "includesStr ?c2 ''<<<<<<<'' \<and> includesStr ?c2 ''>>>>>>>''
      \<and> (oursMatch ?c2 = None \<or> theirsMatch ?c2 = None)"
    by (simp add: text_defs match_defs)
  have 3: "includesStr ?c3 ''<<<<<<<'' \<and> includesStr ?c3 ''>>>>>>>''
      \<and> oursMatch ?c3 = Some (''a'' @ [LF]) \<and> theirsMatch ?c3 = Some (''b'' @ [LF])
      \<and> (versionMatch (''a'' @ [LF]) = None \<or> versionMatch (''b'' @ [LF]) = None)"
    by (simp add: text_defs match_defs)
  note a = version_bump_atomic_on_failure [OF rd, THEN conjunct1, rule_format, OF 1]
  note b = version_bump_atomic_on_failure
    [OF rd, THEN conjunct2, THEN conjunct1, rule_format, OF 2]
  note c = version_bump_atomic_on_failure
    [OF rd, THEN conjunct2, THEN conjunct2, rule_format, OF 3]
  from a b c show ?thesis
    by (intro conjI)
qed

end
